theory Spec2Isabelle
  imports Complex_Main
begin

section \<open>Easy-Ledger: data model\<close>

text \<open>
  The ledger keeps one JSON document in local storage. The model works on the typed value
  that document denotes. A JavaScript \<open>number\<close> holding a balance is modelled as an exact
  rational, years, months and timestamps as integers, identifiers and names as strings.
  A sum of balances is never regrouped or reordered in what follows: a statement about a
  total names the single additions of the loop, in the order the code performs them.
  An optional field (\<open>note?\<close>, \<open>billDay?\<close>, ...) is an \<open>option\<close>.
  Field names carry a prefix per interface (\<open>a_\<close> Account, \<open>r_\<close> MonthlyRecord,
  \<open>l_\<close> RecordLog), since several interfaces share the names \<open>id\<close>, \<open>year\<close>,
  \<open>month\<close> and \<open>balance\<close>.
\<close>

datatype AccountType = Cash | Debit | Credit | Digital | Investment | Loan | Debt

record Account =
  a_id :: string
  a_name :: string
  a_type :: AccountType
  a_icon :: string
  a_balance :: rat
  a_includeInTotal :: bool
  a_isHidden :: bool
  a_note :: "string option"
  a_billDay :: "int option"
  a_repaymentDay :: "int option"
  a_graceDays :: "int option"

record MonthlyRecord =
  r_id :: string
  r_accountId :: string
  r_year :: int
  r_month :: int
  r_balance :: rat

datatype OperationType = Balance_change | Account_create | Account_edit

record RecordLog =
  l_id :: string
  l_accountId :: string
  l_accountName :: string
  l_year :: int
  l_month :: int
  l_oldBalance :: rat
  l_newBalance :: rat
  l_timestamp :: int
  l_operationType :: "OperationType option"

datatype ThemeType = Blue | Green | Orange | Dark | Purple

record AppSettings =
  hideBalance :: bool
  theme :: ThemeType

record AppState =
  accounts :: "Account list"
  records :: "MonthlyRecord list"
  logs :: "RecordLog list"
  settings :: AppSettings
  version :: string

text \<open>
  \<open>Partial<Account>\<close>, the argument of \<open>updateAccount\<close>: every field may be absent
  (\<open>None\<close>). \<open>Partial<AppSettings>\<close> likewise.
\<close>

record AccountUpdates =
  u_id :: "string option"
  u_name :: "string option"
  u_type :: "AccountType option"
  u_icon :: "string option"
  u_balance :: "rat option"
  u_includeInTotal :: "bool option"
  u_isHidden :: "bool option"
  u_note :: "string option"
  u_billDay :: "int option"
  u_repaymentDay :: "int option"
  u_graceDays :: "int option"

record SettingsUpdates =
  su_hideBalance :: "bool option"
  su_theme :: "ThemeType option"

text \<open>
  What an operation reads from outside the document: \<open>generateId e k\<close> is the value of the
  \<open>k\<close>-th call of \<open>generateId()\<close> inside one operation (counted from 0), \<open>dateNow\<close> the
  clock in milliseconds, \<open>nowYear\<close> and \<open>nowMonth\<close> what \<open>new Date()\<close> gives.
\<close>

record Env =
  generateId :: "nat \<Rightarrow> string"
  dateNow :: int
  nowYear :: int
  nowMonth :: int

section \<open>Persistent store\<close>

definition CURRENT_VERSION :: string where
  "CURRENT_VERSION = ''1.2''"

definition defaultSettings :: AppSettings where
  "defaultSettings = \<lparr>hideBalance = False, theme = Blue\<rparr>"

definition defaultState :: AppState where
  "defaultState = \<lparr>accounts = [], records = [], logs = [], settings = defaultSettings,
     version = CURRENT_VERSION\<rparr>"

text \<open>
  \<open>loadData\<close> parses the stored document, fills in defaults and always rewrites the version.
  The store is modelled by the document it holds (an absent key by \<open>defaultState\<close>), so
  loading is the identity up to the version field. \<open>saveData\<close> of \<open>storage.ts\<close> writes its
  argument; the private \<open>saveData\<close> of the calculation module stamps version \<open>1.1\<close>.
  Storage itself is assumed to work (no quota error).
\<close>

definition loadData :: "AppState \<Rightarrow> AppState" where
  "loadData stored = stored\<lparr>version := CURRENT_VERSION\<rparr>"

definition saveData :: "AppState \<Rightarrow> AppState" where
  "saveData state = state"

definition saveData_calc :: "AppState \<Rightarrow> AppState" where
  "saveData_calc d = d\<lparr>version := ''1.1''\<rparr>"

definition getAllAccounts :: "AppState \<Rightarrow> Account list" where
  "getAllAccounts stored = accounts (loadData stored)"

definition getMonthlyRecordsByMonth :: "int \<Rightarrow> int \<Rightarrow> AppState \<Rightarrow> MonthlyRecord list" where
  "getMonthlyRecordsByMonth year month stored =
     filter (\<lambda>r. r_year r = year \<and> r_month r = month) (records (loadData stored))"

text \<open>\<open>Array.prototype.findIndex\<close>; \<open>None\<close> stands for the result \<open>-1\<close>.\<close>

fun findIndex :: "('a \<Rightarrow> bool) \<Rightarrow> 'a list \<Rightarrow> nat option" where
  "findIndex P [] = None"
| "findIndex P (x # xs) = (if P x then Some 0 else map_option Suc (findIndex P xs))"

section \<open>Aggregation engine\<close>

text \<open>
  Every aggregate iterates over all accounts and resolves the balance of each with
  \<^verbatim>\<open>const record = records.find(r => r.accountId === account.id);
  const balance = record ? record.balance : account.balance;\<close>
\<close>

definition resolveBalance :: "MonthlyRecord list \<Rightarrow> Account \<Rightarrow> rat" where
  "resolveBalance recs account =
     (case find (\<lambda>r. r_accountId r = a_id account) recs of
        Some record \<Rightarrow> r_balance record
      | None \<Rightarrow> a_balance account)"

text \<open>
  The body of the loop of \<open>calculateTotalAssets\<close>, from the running total (\<open>acc\<close>) to
  the next; the other aggregates likewise.
\<close>

definition totalAssetsStep :: "MonthlyRecord list \<Rightarrow> rat \<Rightarrow> Account \<Rightarrow> rat" where
  "totalAssetsStep recs acc account =
     (if a_isHidden account then acc
      else let balance = resolveBalance recs account in
        if a_type account = Credit then
          (if balance < 0 then acc + \<bar>balance\<bar> else acc)
        else if a_type account = Debt then acc
        else acc + balance)"

definition calculateTotalAssets :: "int \<Rightarrow> int \<Rightarrow> AppState \<Rightarrow> rat" where
  "calculateTotalAssets year month stored =
     foldl (totalAssetsStep (getMonthlyRecordsByMonth year month stored)) 0
       (getAllAccounts stored)"

definition totalLiabilitiesStep :: "MonthlyRecord list \<Rightarrow> rat \<Rightarrow> Account \<Rightarrow> rat" where
  "totalLiabilitiesStep recs acc account =
     (if a_isHidden account then acc
      else let balance = resolveBalance recs account;
               acc1 = (if a_type account = Credit \<and> balance > 0 then acc + balance
                         else acc)
           in if a_type account = Debt then acc1 + \<bar>balance\<bar> else acc1)"

definition calculateTotalLiabilities :: "int \<Rightarrow> int \<Rightarrow> AppState \<Rightarrow> rat" where
  "calculateTotalLiabilities year month stored =
     foldl (totalLiabilitiesStep (getMonthlyRecordsByMonth year month stored)) 0
       (getAllAccounts stored)"

definition calculateNetWorth :: "int \<Rightarrow> int \<Rightarrow> AppState \<Rightarrow> rat" where
  "calculateNetWorth year month stored =
     calculateTotalAssets year month stored - calculateTotalLiabilities year month stored"

definition loanOutStep :: "MonthlyRecord list \<Rightarrow> rat \<Rightarrow> Account \<Rightarrow> rat" where
  "loanOutStep recs acc account =
     (if a_type account = Loan then acc + resolveBalance recs account else acc)"

definition calculateLoanOut :: "int \<Rightarrow> int \<Rightarrow> AppState \<Rightarrow> rat" where
  "calculateLoanOut year month stored =
     foldl (loanOutStep (getMonthlyRecordsByMonth year month stored)) 0
       (getAllAccounts stored)"

definition debtInStep :: "MonthlyRecord list \<Rightarrow> rat \<Rightarrow> Account \<Rightarrow> rat" where
  "debtInStep recs acc account =
     (if a_type account = Debt then acc + \<bar>resolveBalance recs account\<bar> else acc)"

definition calculateDebtIn :: "int \<Rightarrow> int \<Rightarrow> AppState \<Rightarrow> rat" where
  "calculateDebtIn year month stored =
     foldl (debtInStep (getMonthlyRecordsByMonth year month stored)) 0
       (getAllAccounts stored)"

text \<open>
  Division of JavaScript numbers: a zero divisor gives no finite number (\<open>Infinity\<close> or
  \<open>NaN\<close>), which is \<open>None\<close> here. The percent change is therefore an optional rational.
\<close>

definition jsDivide :: "rat \<Rightarrow> rat \<Rightarrow> rat option" where
  "jsDivide a b = (if b = 0 then None else Some (a / b))"

definition changePercentOf :: "rat \<Rightarrow> rat \<Rightarrow> rat option" where
  "changePercentOf change lastNetWorth =
     (if lastNetWorth \<noteq> 0
      then map_option (\<lambda>q. q * 100) (jsDivide change \<bar>lastNetWorth\<bar>)
      else Some 0)"

record MonthlyNetWorth =
  mn_year :: int
  mn_month :: int
  mn_netWorth :: rat
  mn_totalAssets :: rat
  mn_totalLiabilities :: rat
  mn_change :: rat
  mn_changePercent :: "rat option"

record YearlyNetWorth =
  yn_year :: int
  yn_netWorth :: rat
  yn_totalAssets :: rat
  yn_totalLiabilities :: rat
  yn_lastRecordedMonth :: int
  yn_change :: rat
  yn_changePercent :: "rat option"

text \<open>The month before \<open>(year, month)\<close>, as \<open>getMonthlyNetWorth\<close> and
  \<open>copyLastMonthBalances\<close> compute it.\<close>

definition lastYearMonth :: "int \<Rightarrow> int \<Rightarrow> int \<times> int" where
  "lastYearMonth year month =
     (let lastMonth = month - 1 in
      if lastMonth = 0 then (year - 1, 12) else (year, lastMonth))"

definition getMonthlyNetWorth :: "int \<Rightarrow> int \<Rightarrow> AppState \<Rightarrow> MonthlyNetWorth" where
  "getMonthlyNetWorth year month stored =
     (let totalAssets = calculateTotalAssets year month stored;
          totalLiabilities = calculateTotalLiabilities year month stored;
          netWorth = totalAssets - totalLiabilities;
          (lastYear, lastMonth) = lastYearMonth year month;
          lastNetWorth = calculateNetWorth lastYear lastMonth stored;
          change = netWorth - lastNetWorth
      in \<lparr>mn_year = year, mn_month = month, mn_netWorth = netWorth,
           mn_totalAssets = totalAssets, mn_totalLiabilities = totalLiabilities,
           mn_change = change, mn_changePercent = changePercentOf change lastNetWorth\<rparr>)"

text \<open>\<open>Math.max(...months)\<close> over the months of the year's records, 0 when there are none.\<close>

definition getLastRecordedMonth :: "int \<Rightarrow> AppState \<Rightarrow> int" where
  "getLastRecordedMonth year stored =
     (let yearRecords = filter (\<lambda>r. r_year r = year) (records (loadData stored)) in
      case map r_month yearRecords of
        [] \<Rightarrow> 0
      | m # ms \<Rightarrow> foldl max m ms)"

definition getYearlyNetWorth :: "int \<Rightarrow> AppState \<Rightarrow> YearlyNetWorth" where
  "getYearlyNetWorth year stored =
     (let recorded = getLastRecordedMonth year stored;
          lastMonth = (if recorded = 0 then 12 else recorded);
          totalAssets = calculateTotalAssets year lastMonth stored;
          totalLiabilities = calculateTotalLiabilities year lastMonth stored;
          netWorth = totalAssets - totalLiabilities;
          lastYearNetWorth = calculateNetWorth (year - 1) 12 stored;
          change = netWorth - lastYearNetWorth
      in \<lparr>yn_year = year, yn_netWorth = netWorth, yn_totalAssets = totalAssets,
           yn_totalLiabilities = totalLiabilities, yn_lastRecordedMonth = lastMonth,
           yn_change = change, yn_changePercent = changePercentOf change lastYearNetWorth\<rparr>)"

section \<open>Ledger repository\<close>

text \<open>
  \<open>addAccount\<close> takes an \<open>Omit<Account, 'id'>\<close>: the \<open>a_id\<close> of the argument is not read,
  it is replaced by a generated identifier.
\<close>

definition addAccount :: "Env \<Rightarrow> Account \<Rightarrow> AppState \<Rightarrow> Account \<times> AppState" where
  "addAccount e account stored =
     (let data = loadData stored;
          newAccount = account\<lparr>a_id := generateId e 0\<rparr>;
          accounts1 = accounts data @ [newAccount];
          currentYear = nowYear e;
          currentMonth = nowMonth e;
          hasBalance = (a_balance newAccount \<noteq> 0);
          records1 = (if hasBalance
                      then records data @
                        [\<lparr>r_id = generateId e 1, r_accountId = a_id newAccount,
                          r_year = currentYear, r_month = currentMonth,
                          r_balance = a_balance newAccount\<rparr>]
                      else records data);
          logs1 = logs data @
            [\<lparr>l_id = generateId e (if hasBalance then 2 else 1),
              l_accountId = a_id newAccount, l_accountName = a_name newAccount,
              l_year = currentYear, l_month = currentMonth,
              l_oldBalance = 0, l_newBalance = a_balance newAccount,
              l_timestamp = dateNow e, l_operationType = Some Account_create\<rparr>]
      in (newAccount,
          saveData (data\<lparr>accounts := accounts1, records := records1, logs := logs1\<rparr>)))"

text \<open>The spread \<open>{ ...account, ...updates }\<close>: a field present in the updates wins.\<close>

definition mergeAccount :: "Account \<Rightarrow> AccountUpdates \<Rightarrow> Account" where
  "mergeAccount a u =
     \<lparr>a_id = (case u_id u of None \<Rightarrow> a_id a | Some v \<Rightarrow> v),
      a_name = (case u_name u of None \<Rightarrow> a_name a | Some v \<Rightarrow> v),
      a_type = (case u_type u of None \<Rightarrow> a_type a | Some v \<Rightarrow> v),
      a_icon = (case u_icon u of None \<Rightarrow> a_icon a | Some v \<Rightarrow> v),
      a_balance = (case u_balance u of None \<Rightarrow> a_balance a | Some v \<Rightarrow> v),
      a_includeInTotal = (case u_includeInTotal u of None \<Rightarrow> a_includeInTotal a | Some v \<Rightarrow> v),
      a_isHidden = (case u_isHidden u of None \<Rightarrow> a_isHidden a | Some v \<Rightarrow> v),
      a_note = (case u_note u of None \<Rightarrow> a_note a | Some v \<Rightarrow> Some v),
      a_billDay = (case u_billDay u of None \<Rightarrow> a_billDay a | Some v \<Rightarrow> Some v),
      a_repaymentDay = (case u_repaymentDay u of None \<Rightarrow> a_repaymentDay a | Some v \<Rightarrow> Some v),
      a_graceDays = (case u_graceDays u of None \<Rightarrow> a_graceDays a | Some v \<Rightarrow> Some v)\<rparr>"

text \<open>The two conditions of \<open>updateAccount\<close>, each \<open>updates.f !== undefined && updates.f !== oldAccount.f\<close>.\<close>

definition balanceChanged :: "Account \<Rightarrow> AccountUpdates \<Rightarrow> bool" where
  "balanceChanged oldAccount u =
     (case u_balance u of None \<Rightarrow> False | Some b \<Rightarrow> b \<noteq> a_balance oldAccount)"

definition infoChanged :: "Account \<Rightarrow> AccountUpdates \<Rightarrow> bool" where
  "infoChanged oldAccount u =
     ((case u_name u of None \<Rightarrow> False | Some v \<Rightarrow> v \<noteq> a_name oldAccount) \<or>
      (case u_note u of None \<Rightarrow> False | Some v \<Rightarrow> Some v \<noteq> a_note oldAccount) \<or>
      (case u_type u of None \<Rightarrow> False | Some v \<Rightarrow> v \<noteq> a_type oldAccount) \<or>
      (case u_icon u of None \<Rightarrow> False | Some v \<Rightarrow> v \<noteq> a_icon oldAccount))"

text \<open>
  \<open>updateAccount\<close>. The record found by \<open>data.records.find\<close> is updated in place, which for
  the array is an update at the position of the first match. \<open>n\<close> counts the calls of
  \<open>generateId()\<close> made so far.
\<close>

definition updateAccount ::
  "Env \<Rightarrow> string \<Rightarrow> AccountUpdates \<Rightarrow> AppState \<Rightarrow> Account option \<times> AppState" where
  "updateAccount e ident updates stored =
     (let data = loadData stored in
      case findIndex (\<lambda>a. a_id a = ident) (accounts data) of
        None \<Rightarrow> (None, stored)
      | Some index \<Rightarrow>
         (let oldAccount = accounts data ! index;
              newAccount = mergeAccount oldAccount updates;
              accounts1 = (accounts data)[index := newAccount];
              currentYear = nowYear e;
              currentMonth = nowMonth e;
              (records1, logs1, n) =
                (case u_balance updates of
                   None \<Rightarrow> (records data, logs data, 0)
                 | Some newBalance \<Rightarrow>
                     if newBalance \<noteq> a_balance oldAccount then
                       (let (recs, k) =
                              (case findIndex (\<lambda>r. r_accountId r = ident \<and> r_year r = currentYear
                                                  \<and> r_month r = currentMonth) (records data) of
                                 Some i \<Rightarrow>
                                   ((records data)[i := (records data ! i)\<lparr>r_balance := newBalance\<rparr>], 0)
                               | None \<Rightarrow>
                                   (records data @
                                      [\<lparr>r_id = generateId e 0, r_accountId = ident,
                                        r_year = currentYear, r_month = currentMonth,
                                        r_balance = newBalance\<rparr>], 1))
                        in (recs,
                            logs data @
                              [\<lparr>l_id = generateId e k, l_accountId = ident,
                                l_accountName = a_name newAccount,
                                l_year = currentYear, l_month = currentMonth,
                                l_oldBalance = a_balance oldAccount, l_newBalance = newBalance,
                                l_timestamp = dateNow e,
                                l_operationType = Some Balance_change\<rparr>],
                            Suc k))
                     else (records data, logs data, 0));
              logs2 = (if infoChanged oldAccount updates
                       then logs1 @
                         [\<lparr>l_id = generateId e n, l_accountId = ident,
                           l_accountName = a_name newAccount,
                           l_year = currentYear, l_month = currentMonth,
                           l_oldBalance = a_balance oldAccount,
                           l_newBalance = a_balance newAccount,
                           l_timestamp = dateNow e,
                           l_operationType = Some Account_edit\<rparr>]
                       else logs1)
          in (Some newAccount,
              saveData (data\<lparr>accounts := accounts1, records := records1, logs := logs2\<rparr>))))"

text \<open>\<open>deleteAccount\<close>; \<open>splice(index, 1)\<close> drops the element at \<open>index\<close>.\<close>

definition deleteAccount :: "string \<Rightarrow> AppState \<Rightarrow> bool \<times> AppState" where
  "deleteAccount ident stored =
     (let data = loadData stored in
      case findIndex (\<lambda>a. a_id a = ident) (accounts data) of
        Some index \<Rightarrow>
          (True, saveData (data\<lparr>
             accounts := take index (accounts data) @ drop (Suc index) (accounts data),
             records := filter (\<lambda>r. r_accountId r \<noteq> ident) (records data),
             logs := filter (\<lambda>l. l_accountId l \<noteq> ident) (logs data)\<rparr>))
      | None \<Rightarrow> (False, stored))"

text \<open>
  \<open>setMonthlyRecord\<close>. \<open>account?.balance || 0\<close> is the baseline balance of the account, or 0
  when there is no such account. The log is written only under \<open>oldBalance !== balance && account\<close>;
  the record is written in both cases.
\<close>

definition setMonthlyRecord ::
  "Env \<Rightarrow> string \<Rightarrow> int \<Rightarrow> int \<Rightarrow> rat \<Rightarrow> AppState \<Rightarrow> MonthlyRecord \<times> AppState" where
  "setMonthlyRecord e accountId year month balance stored =
     (let data = loadData stored;
          account = find (\<lambda>a. a_id a = accountId) (accounts data);
          existing = findIndex (\<lambda>r. r_accountId r = accountId \<and> r_year r = year
                                  \<and> r_month r = month) (records data);
          oldBalance = (case existing of
                          Some i \<Rightarrow> r_balance (records data ! i)
                        | None \<Rightarrow> (case account of Some a \<Rightarrow> a_balance a | None \<Rightarrow> 0));
          (logs1, n) =
            (case account of
               Some a \<Rightarrow>
                 if oldBalance \<noteq> balance then
                   (logs data @
                      [\<lparr>l_id = generateId e 0, l_accountId = accountId,
                        l_accountName = a_name a, l_year = year, l_month = month,
                        l_oldBalance = oldBalance, l_newBalance = balance,
                        l_timestamp = dateNow e, l_operationType = Some Balance_change\<rparr>], 1)
                 else (logs data, 0)
             | None \<Rightarrow> (logs data, 0))
      in case existing of
           Some i \<Rightarrow>
             (let existingRecord = (records data ! i)\<lparr>r_balance := balance\<rparr>
              in (existingRecord,
                  saveData (data\<lparr>records := (records data)[i := existingRecord],
                                 logs := logs1\<rparr>)))
         | None \<Rightarrow>
             (let newRecord = \<lparr>r_id = generateId e n, r_accountId = accountId, r_year = year,
                                r_month = month, r_balance = balance\<rparr>
              in (newRecord,
                  saveData (data\<lparr>records := records data @ [newRecord], logs := logs1\<rparr>))))"

definition deleteMonthlyRecord :: "string \<Rightarrow> AppState \<Rightarrow> bool \<times> AppState" where
  "deleteMonthlyRecord recordId stored =
     (let data = loadData stored in
      case findIndex (\<lambda>r. r_id r = recordId) (records data) of
        Some index \<Rightarrow>
          (True, saveData (data\<lparr>
             records := take index (records data) @ drop (Suc index) (records data)\<rparr>))
      | None \<Rightarrow> (False, stored))"

text \<open>
  \<open>copyLastMonthBalances\<close>: the loop over last month's records, \<open>n\<close> counting the identifiers
  generated so far. The records read by the loop lie in last month and the ones written in
  \<open>(year, month)\<close>, a different month, so no iteration changes a record a later one reads.
\<close>

fun copyLoop ::
  "(nat \<Rightarrow> string) \<Rightarrow> nat \<Rightarrow> int \<Rightarrow> int \<Rightarrow> MonthlyRecord list \<Rightarrow> MonthlyRecord list
     \<Rightarrow> MonthlyRecord list" where
  "copyLoop gen n year month recs [] = recs"
| "copyLoop gen n year month recs (record # rest) =
     (case findIndex (\<lambda>r. r_accountId r = r_accountId record \<and> r_year r = year
                         \<and> r_month r = month) recs of
        Some existingIndex \<Rightarrow>
          copyLoop gen n year month
            (recs[existingIndex := (recs ! existingIndex)\<lparr>r_balance := r_balance record\<rparr>]) rest
      | None \<Rightarrow>
          copyLoop gen (Suc n) year month
            (recs @ [\<lparr>r_id = gen n, r_accountId = r_accountId record, r_year = year,
                      r_month = month, r_balance = r_balance record\<rparr>]) rest)"

definition copyLastMonthBalances :: "Env \<Rightarrow> int \<Rightarrow> int \<Rightarrow> AppState \<Rightarrow> AppState" where
  "copyLastMonthBalances e year month stored =
     (let data = loadData stored;
          (lastYear, lastMonth) = lastYearMonth year month;
          lastMonthRecords =
            filter (\<lambda>r. r_year r = lastYear \<and> r_month r = lastMonth) (records data)
      in saveData_calc
           (data\<lparr>records := copyLoop (generateId e) 0 year month (records data)
                                lastMonthRecords\<rparr>))"

section \<open>Export and import\<close>

text \<open>
  A JSON text is modelled by what \<open>JSON.parse\<close> makes of it: nothing (\<open>Unparseable\<close>, the
  parser throws), a value that is not an object with fields (\<open>NotAnObject\<close>: \<open>null\<close>, a
  number, a string, ...), or an object whose fields \<open>accounts\<close>, \<open>records\<close>, \<open>logs\<close>,
  \<open>settings\<close> and \<open>version\<close> are each absent or well typed. \<open>JSON.stringify\<close> followed by
  \<open>JSON.parse\<close> gives back the value, so \<open>exportDataByRange\<close> yields the parsed form of
  the text it writes.
\<close>

record ImportPayload =
  p_accounts :: "Account list option"
  p_records :: "MonthlyRecord list option"
  p_logs :: "RecordLog list option"
  p_settings :: "SettingsUpdates option"
  p_version :: "string option"

datatype ImportInput = Unparseable | NotAnObject | Document ImportPayload

datatype MergeMode = Overwrite | Merge

definition inRange :: "int \<Rightarrow> int \<Rightarrow> int \<Rightarrow> int \<Rightarrow> int \<Rightarrow> int \<Rightarrow> bool" where
  "inRange startYear startMonth endYear endMonth year month =
     (let key = year * 100 + month;
          startKey = startYear * 100 + startMonth;
          endKey = endYear * 100 + endMonth
      in key \<ge> startKey \<and> key \<le> endKey)"

definition exportDataByRange :: "int \<Rightarrow> int \<Rightarrow> int \<Rightarrow> int \<Rightarrow> AppState \<Rightarrow> ImportInput" where
  "exportDataByRange startYear startMonth endYear endMonth stored =
     (let data = loadData stored;
          filteredRecords =
            filter (\<lambda>r. inRange startYear startMonth endYear endMonth (r_year r) (r_month r))
              (records data);
          filteredLogs =
            filter (\<lambda>l. inRange startYear startMonth endYear endMonth (l_year l) (l_month l))
              (logs data)
      in Document \<lparr>p_accounts = Some (accounts data), p_records = Some filteredRecords,
                   p_logs = Some filteredLogs, p_settings = None,
                   p_version = Some CURRENT_VERSION\<rparr>)"

definition mergeSettings :: "AppSettings \<Rightarrow> SettingsUpdates option \<Rightarrow> AppSettings" where
  "mergeSettings s upd =
     (case upd of
        None \<Rightarrow> s
      | Some u \<Rightarrow>
          \<lparr>hideBalance = (case su_hideBalance u of None \<Rightarrow> hideBalance s | Some v \<Rightarrow> v),
           theme = (case su_theme u of None \<Rightarrow> theme s | Some v \<Rightarrow> v)\<rparr>)"

text \<open>
  \<open>importData\<close>. The three ways to \<open>return false\<close>: the parser throws, reading a field of
  \<open>null\<close> throws (both caught), or \<open>!data.accounts || !data.records\<close>. None of them is
  preceded by a write.
\<close>

definition importData ::
  "Env \<Rightarrow> ImportInput \<Rightarrow> int option \<Rightarrow> int option \<Rightarrow> MergeMode \<Rightarrow> AppState
     \<Rightarrow> bool \<times> AppState" where
  "importData e jsonString targetYear targetMonth mergeMode stored =
     (case jsonString of
        Unparseable \<Rightarrow> (False, stored)
      | NotAnObject \<Rightarrow> (False, stored)
      | Document d \<Rightarrow>
         (case (p_accounts d, p_records d) of
            (Some dAccounts, Some dRecords) \<Rightarrow>
              (let currentData = loadData stored;
                   dLogs = (case p_logs d of None \<Rightarrow> [] | Some ls \<Rightarrow> ls)
               in case (targetYear, targetMonth) of
                    (Some ty, Some tm) \<Rightarrow>
                      (let records0 =
                             (if mergeMode = Overwrite
                              then filter (\<lambda>r. \<not> (r_year r = ty \<and> r_month r = tm))
                                     (records currentData)
                              else records currentData);
                           logs0 =
                             (if mergeMode = Overwrite
                              then filter (\<lambda>l. \<not> (l_year l = ty \<and> l_month l = tm))
                                     (logs currentData)
                              else logs currentData);
                           importedRecords =
                             map (\<lambda>(k, r). r\<lparr>r_id := generateId e k, r_year := ty,
                                               r_month := tm\<rparr>)
                               (enumerate 0 dRecords);
                           importedLogs =
                             map (\<lambda>(k, l). l\<lparr>l_id := generateId e (length dRecords + k),
                                               l_year := ty, l_month := tm,
                                               l_timestamp := dateNow e\<rparr>)
                               (enumerate 0 dLogs);
                           existingAccountIds = map a_id (accounts currentData);
                           newAccounts =
                             filter (\<lambda>a. a_id a \<notin> set existingAccountIds) dAccounts
                       in (True,
                           saveData (currentData\<lparr>
                             accounts := accounts currentData @ newAccounts,
                             records := records0 @ importedRecords,
                             logs := logs0 @ importedLogs\<rparr>)))
                  | _ \<Rightarrow>
                      (True,
                       saveData \<lparr>accounts = dAccounts, records = dRecords, logs = dLogs,
                                 settings = mergeSettings defaultSettings (p_settings d),
                                 version = CURRENT_VERSION\<rparr>))
          | _ \<Rightarrow> (False, stored)))"

section \<open>The uniqueness invariant of monthly records\<close>

definition recKey :: "MonthlyRecord \<Rightarrow> string \<times> int \<times> int" where
  "recKey r = (r_accountId r, r_year r, r_month r)"

text \<open>At most one record per (account, year, month): no key occurs twice in the array.\<close>

definition uniqueRecords :: "MonthlyRecord list \<Rightarrow> bool" where
  "uniqueRecords recs = distinct (map recKey recs)"

section \<open>Example documents\<close>

text \<open>Concrete accounts and documents on which the theorems below are evaluated.\<close>

definition cashAcc :: Account where
  "cashAcc = \<lparr>a_id = ''acc-cash'', a_name = ''Wallet'', a_type = Cash, a_icon = ''banknote'',
     a_balance = 1000, a_includeInTotal = True, a_isHidden = False, a_note = None,
     a_billDay = None, a_repaymentDay = None, a_graceDays = None\<rparr>"

definition hiddenLoanAcc :: Account where
  "hiddenLoanAcc = cashAcc\<lparr>a_id := ''acc-loan'', a_name := ''Lent'', a_type := Loan,
     a_balance := 100, a_isHidden := True\<rparr>"

definition hiddenDebtAcc :: Account where
  "hiddenDebtAcc = cashAcc\<lparr>a_id := ''acc-debt'', a_name := ''Borrowed'', a_type := Debt,
     a_balance := 70, a_isHidden := True\<rparr>"

definition creditAcc :: "rat \<Rightarrow> Account" where
  "creditAcc b = cashAcc\<lparr>a_id := ''acc-credit'', a_name := ''Card'', a_type := Credit,
     a_balance := b\<rparr>"

definition docHidden :: AppState where
  "docHidden = defaultState\<lparr>accounts := [hiddenLoanAcc, hiddenDebtAcc]\<rparr>"

text \<open>A wallet and a credit card with baseline balance \<open>b0\<close> and a record \<open>br\<close> for
  January 2024.\<close>

definition docCredit :: "rat \<Rightarrow> rat \<Rightarrow> AppState" where
  "docCredit b0 br = defaultState\<lparr>accounts := [cashAcc, creditAcc b0],
     records := [\<lparr>r_id = ''rec-c'', r_accountId = ''acc-credit'', r_year = 2024, r_month = 1,
                  r_balance = br\<rparr>]\<rparr>"

definition env0 :: Env where
  "env0 = \<lparr>generateId = (\<lambda>k. replicate (Suc k) (CHR ''g'')), dateNow = 1700000000000,
     nowYear = 2024, nowMonth = 1\<rparr>"

definition docZeroPrior :: AppState where
  "docZeroPrior = defaultState\<lparr>accounts := [cashAcc],
     records := [\<lparr>r_id = ''rec-1'', r_accountId = ''acc-cash'', r_year = 2023, r_month = 12,
                  r_balance = 0\<rparr>]\<rparr>"

definition noUpdates :: AccountUpdates where
  "noUpdates = \<lparr>u_id = None, u_name = None, u_type = None, u_icon = None, u_balance = None,
     u_includeInTotal = None, u_isHidden = None, u_note = None, u_billDay = None,
     u_repaymentDay = None, u_graceDays = None\<rparr>"

definition renameAndRebalance :: AccountUpdates where
  "renameAndRebalance = noUpdates\<lparr>u_name := Some ''Purse'', u_balance := Some 800\<rparr>"

definition renameOnly :: AccountUpdates where
  "renameOnly = noUpdates\<lparr>u_name := Some ''Purse''\<rparr>"

definition docOne :: AppState where
  "docOne = defaultState\<lparr>accounts := [cashAcc]\<rparr>"

definition docTwo :: AppState where
  "docTwo = defaultState\<lparr>accounts := [cashAcc],
     records := [\<lparr>r_id = ''rec-1'', r_accountId = ''acc-cash'', r_year = 2023, r_month = 12,
                  r_balance = 900\<rparr>,
                 \<lparr>r_id = ''rec-2'', r_accountId = ''acc-cash'', r_year = 2024, r_month = 1,
                  r_balance = 950\<rparr>]\<rparr>"

definition dupPayload :: ImportPayload where
  "dupPayload = \<lparr>p_accounts = Some [cashAcc],
     p_records = Some [\<lparr>r_id = ''rec-a'', r_accountId = ''acc-cash'', r_year = 2024, r_month = 3,
                        r_balance = 10\<rparr>,
                       \<lparr>r_id = ''rec-b'', r_accountId = ''acc-cash'', r_year = 2024, r_month = 3,
                        r_balance = 20\<rparr>],
     p_logs = None, p_settings = None, p_version = None\<rparr>"

definition docDupPrev :: AppState where
  "docDupPrev = defaultState\<lparr>accounts := [cashAcc],
     records := [\<lparr>r_id = ''rec-1'', r_accountId = ''acc-cash'', r_year = 2023, r_month = 12,
                  r_balance = 900\<rparr>,
                 \<lparr>r_id = ''rec-1b'', r_accountId = ''acc-cash'', r_year = 2023, r_month = 12,
                  r_balance = 700\<rparr>]\<rparr>"


section \<open>Aggregates: hidden accounts and credit accounts\<close>

text \<open>
  A total is the loop body folded over the account list from the left, so the running
  total after an account is the loop body applied to the running total before it.
\<close>

lemma getMonthlyRecordsByMonth_accounts [simp]:
  "getMonthlyRecordsByMonth y m (st\<lparr>accounts := as\<rparr>) = getMonthlyRecordsByMonth y m st"
  by (simp add: getMonthlyRecordsByMonth_def loadData_def)

lemma getAllAccounts_accounts [simp]:
  "getAllAccounts (st\<lparr>accounts := as\<rparr>) = as"
  by (simp add: getAllAccounts_def loadData_def)

lemma getAllAccounts_eq: "getAllAccounts st = accounts st"
  by (simp add: getAllAccounts_def loadData_def)

lemma foldl_skip:
  assumes "\<And>acc. f acc a = acc"
  shows "foldl f acc (pre @ a # post) = foldl f acc (pre @ post)"
  by (simp add: assms)

lemma hidden_excluded_from_totals:
  assumes "a_isHidden a" and "accounts st = pre @ a # post"
  shows "calculateTotalAssets y m st = calculateTotalAssets y m (st\<lparr>accounts := pre @ post\<rparr>)"
    and "calculateTotalLiabilities y m st
           = calculateTotalLiabilities y m (st\<lparr>accounts := pre @ post\<rparr>)"
    and "calculateNetWorth y m st = calculateNetWorth y m (st\<lparr>accounts := pre @ post\<rparr>)"
proof -
  have skipA: "totalAssetsStep recs acc a = acc" for recs acc
    using assms(1) by (simp add: totalAssetsStep_def)
  have skipL: "totalLiabilitiesStep recs acc a = acc" for recs acc
    using assms(1) by (simp add: totalLiabilitiesStep_def)
  show 1: "calculateTotalAssets y m st = calculateTotalAssets y m (st\<lparr>accounts := pre @ post\<rparr>)"
    unfolding calculateTotalAssets_def
    by (simp add: getAllAccounts_eq assms(2) skipA)
  show 2: "calculateTotalLiabilities y m st
           = calculateTotalLiabilities y m (st\<lparr>accounts := pre @ post\<rparr>)"
    unfolding calculateTotalLiabilities_def
    by (simp add: getAllAccounts_eq assms(2) skipL)
  show "calculateNetWorth y m st = calculateNetWorth y m (st\<lparr>accounts := pre @ post\<rparr>)"
    unfolding calculateNetWorth_def using 1 2 by simp
qed

text \<open>
  C1. Hidden accounts are excluded from every aggregate: total assets, total liabilities,
  net worth, loan-out total and debt-in total. The three totals skip a hidden account
  (\<open>hidden_excluded_from_totals\<close>), but \<open>calculateLoanOut\<close> and \<open>calculateDebtIn\<close> never
  read \<open>isHidden\<close>: in a document whose only accounts are a hidden loan of 100 and a hidden
  debt of 70, the loan-out total is 100 and the debt-in total is 70, and each is 0 once the
  hidden account is taken out, while total assets and total liabilities are 0.
\<close>

theorem hidden_loan_debt_counted:
  "a_isHidden hiddenLoanAcc \<and> a_isHidden hiddenDebtAcc
   \<and> calculateLoanOut 2024 1 docHidden = 100
   \<and> calculateLoanOut 2024 1 (docHidden\<lparr>accounts := [hiddenDebtAcc]\<rparr>) = 0
   \<and> calculateDebtIn 2024 1 docHidden = 70
   \<and> calculateDebtIn 2024 1 (docHidden\<lparr>accounts := [hiddenLoanAcc]\<rparr>) = 0
   \<and> calculateTotalAssets 2024 1 docHidden = 0
   \<and> calculateTotalLiabilities 2024 1 docHidden = 0"
  by (simp add: calculateLoanOut_def calculateDebtIn_def calculateTotalAssets_def
      calculateTotalLiabilities_def getAllAccounts_def getMonthlyRecordsByMonth_def
      loadData_def docHidden_def defaultState_def hiddenLoanAcc_def hiddenDebtAcc_def
      cashAcc_def loanOutStep_def debtInStep_def totalAssetsStep_def totalLiabilitiesStep_def
      resolveBalance_def)

text \<open>
  C7. For a credit account that is not hidden, only the negative part of its resolved
  balance counts towards total assets, as its absolute value, and only the positive part
  towards total liabilities. The resolved balance \<open>b\<close> is the balance of the first record
  of \<open>(year, month)\<close> whose account is this one, and the baseline balance of the account
  when there is none. The loop body of \<open>calculateTotalAssets\<close> takes any running total
  \<open>acc\<close> to \<open>acc + \<bar>b\<bar>\<close> when \<open>b < 0\<close> and leaves it as it is otherwise; the one of
  \<open>calculateTotalLiabilities\<close> takes it to \<open>acc + b\<close> when \<open>b > 0\<close> and leaves it
  otherwise. So the totals of the accounts up to and including the card are the totals of
  the accounts before it with that one addition: +50 to assets and nothing to liabilities
  for a balance of -50, nothing to assets and +50 to liabilities for a balance of +50.
\<close>

theorem credit_contribution:
  fixes a :: Account and st :: AppState and y m :: int and pre :: "Account list"
  assumes "a_type a = Credit" and "\<not> a_isHidden a"
  defines "b \<equiv> (case find (\<lambda>r. r_accountId r = a_id a)
                         (filter (\<lambda>r. r_year r = y \<and> r_month r = m) (records st)) of
                    Some record \<Rightarrow> r_balance record
                  | None \<Rightarrow> a_balance a)"
  shows "(\<forall>acc. totalAssetsStep (getMonthlyRecordsByMonth y m st) acc a
               = (if b < 0 then acc + \<bar>b\<bar> else acc))
     \<and> (\<forall>acc. totalLiabilitiesStep (getMonthlyRecordsByMonth y m st) acc a
               = (if b > 0 then acc + b else acc))
     \<and> calculateTotalAssets y m (st\<lparr>accounts := pre @ [a]\<rparr>)
         = (if b < 0 then calculateTotalAssets y m (st\<lparr>accounts := pre\<rparr>) + \<bar>b\<bar>
            else calculateTotalAssets y m (st\<lparr>accounts := pre\<rparr>))
     \<and> calculateTotalLiabilities y m (st\<lparr>accounts := pre @ [a]\<rparr>)
         = (if b > 0 then calculateTotalLiabilities y m (st\<lparr>accounts := pre\<rparr>) + b
            else calculateTotalLiabilities y m (st\<lparr>accounts := pre\<rparr>))"
proof -
  have resolved: "resolveBalance (getMonthlyRecordsByMonth y m st) a = b"
    by (simp add: resolveBalance_def getMonthlyRecordsByMonth_def loadData_def b_def)
  have stepA: "totalAssetsStep (getMonthlyRecordsByMonth y m st) acc a
               = (if b < 0 then acc + \<bar>b\<bar> else acc)" for acc
    using assms(1,2) by (simp add: totalAssetsStep_def resolved)
  have stepL: "totalLiabilitiesStep (getMonthlyRecordsByMonth y m st) acc a
               = (if b > 0 then acc + b else acc)" for acc
    using assms(1,2) by (simp add: totalLiabilitiesStep_def resolved)
  have totA: "calculateTotalAssets y m (st\<lparr>accounts := pre @ [a]\<rparr>)
      = totalAssetsStep (getMonthlyRecordsByMonth y m st)
          (calculateTotalAssets y m (st\<lparr>accounts := pre\<rparr>)) a"
    by (simp add: calculateTotalAssets_def)
  have totL: "calculateTotalLiabilities y m (st\<lparr>accounts := pre @ [a]\<rparr>)
      = totalLiabilitiesStep (getMonthlyRecordsByMonth y m st)
          (calculateTotalLiabilities y m (st\<lparr>accounts := pre\<rparr>)) a"
    by (simp add: calculateTotalLiabilities_def)
  show ?thesis
    unfolding totA totL using stepA stepL by simp
qed

text \<open>
  The card of \<open>docCredit\<close> has a record for January 2024 and none for February, so the
  record decides in January and the baseline balance in February.
\<close>

theorem credit_contribution_witness:
  "calculateTotalAssets 2024 1 (docCredit 50 (-50)) = 1050
   \<and> calculateTotalLiabilities 2024 1 (docCredit 50 (-50)) = 0
   \<and> calculateTotalAssets 2024 1 (docCredit (-50) 50) = 1000
   \<and> calculateTotalLiabilities 2024 1 (docCredit (-50) 50) = 50
   \<and> calculateTotalAssets 2024 2 (docCredit 50 (-50)) = 1000
   \<and> calculateTotalLiabilities 2024 2 (docCredit 50 (-50)) = 50"
proof -
  have card: "a_type (creditAcc b0) = Credit" "\<not> a_isHidden (creditAcc b0)" for b0
    by (simp_all add: creditAcc_def cashAcc_def)
  have doc: "(docCredit b0 br)\<lparr>accounts := [cashAcc] @ [creditAcc b0]\<rparr> = docCredit b0 br"
    for b0 br
    by (simp add: docCredit_def)
  have wallet: "calculateTotalAssets y m ((docCredit b0 br)\<lparr>accounts := [cashAcc]\<rparr>) = 1000"
    "calculateTotalLiabilities y m ((docCredit b0 br)\<lparr>accounts := [cashAcc]\<rparr>) = 0"
    for y m b0 br
    by (simp_all add: calculateTotalAssets_def calculateTotalLiabilities_def
        totalAssetsStep_def totalLiabilitiesStep_def resolveBalance_def
        getMonthlyRecordsByMonth_def getAllAccounts_eq loadData_def docCredit_def
        defaultState_def cashAcc_def creditAcc_def)
  from credit_contribution [OF card, where y = 2024 and m = 1 and st = "docCredit 50 (-50)"
        and pre = "[cashAcc]"]
    credit_contribution [OF card, where y = 2024 and m = 1 and st = "docCredit (-50) 50"
        and pre = "[cashAcc]"]
    credit_contribution [OF card, where y = 2024 and m = 2 and st = "docCredit 50 (-50)"
        and pre = "[cashAcc]"]
  show ?thesis
    unfolding doc wallet
    by (simp add: docCredit_def defaultState_def creditAcc_def cashAcc_def)
qed

section \<open>Percent change\<close>

lemma changePercentOf_zero: "changePercentOf change 0 = Some 0"
  by (simp add: changePercentOf_def)

lemma changePercentOf_defined: "changePercentOf change lastNetWorth \<noteq> None"
  by (simp add: changePercentOf_def jsDivide_def)

text \<open>
  C8. The percent change computed by \<open>getMonthlyNetWorth\<close> and \<open>getYearlyNetWorth\<close> is
  exactly 0 whenever the net worth of the prior period (last month, respectively December
  of last year) is exactly 0, whatever the current net worth. The division is guarded: the
  percent change is a finite number on every input, so no division by zero is evaluated.
\<close>

theorem percent_change_zero_prior:
  "(calculateNetWorth (fst (lastYearMonth y m)) (snd (lastYearMonth y m)) st = 0
      \<longrightarrow> mn_changePercent (getMonthlyNetWorth y m st) = Some 0)
   \<and> (calculateNetWorth (y - 1) 12 st = 0
      \<longrightarrow> yn_changePercent (getYearlyNetWorth y st) = Some 0)
   \<and> mn_changePercent (getMonthlyNetWorth y m st) \<noteq> None
   \<and> yn_changePercent (getYearlyNetWorth y st) \<noteq> None"
  by (simp add: getMonthlyNetWorth_def getYearlyNetWorth_def Let_def split_beta
      changePercentOf_zero changePercentOf_defined)

theorem percent_change_zero_prior_witness:
  "calculateNetWorth 2023 12 docZeroPrior = 0
   \<and> mn_change (getMonthlyNetWorth 2024 1 docZeroPrior) = 1000
   \<and> mn_changePercent (getMonthlyNetWorth 2024 1 docZeroPrior) = Some 0
   \<and> yn_change (getYearlyNetWorth 2024 docZeroPrior) = 1000
   \<and> yn_changePercent (getYearlyNetWorth 2024 docZeroPrior) = Some 0"
proof -
  have recs: "getMonthlyRecordsByMonth 2023 12 docZeroPrior = records docZeroPrior"
    "getMonthlyRecordsByMonth 2024 1 docZeroPrior = []"
    "getMonthlyRecordsByMonth 2024 12 docZeroPrior = []"
    by (simp_all add: getMonthlyRecordsByMonth_def loadData_def docZeroPrior_def defaultState_def)
  have prior: "calculateNetWorth 2023 12 docZeroPrior = 0"
    by (simp add: calculateNetWorth_def calculateTotalAssets_def calculateTotalLiabilities_def
        recs getAllAccounts_eq)
       (simp add: docZeroPrior_def defaultState_def cashAcc_def totalAssetsStep_def
        totalLiabilitiesStep_def resolveBalance_def)
  have cur: "calculateNetWorth 2024 1 docZeroPrior = 1000"
      "calculateNetWorth 2024 12 docZeroPrior = 1000"
    by (simp_all add: calculateNetWorth_def calculateTotalAssets_def calculateTotalLiabilities_def
        recs getAllAccounts_eq)
       (simp_all add: docZeroPrior_def defaultState_def cashAcc_def totalAssetsStep_def
        totalLiabilitiesStep_def resolveBalance_def)
  have lym: "lastYearMonth 2024 1 = (2023, 12)"
    by (simp add: lastYearMonth_def)
  have lrm: "getLastRecordedMonth 2024 docZeroPrior = 0"
    by (simp add: getLastRecordedMonth_def loadData_def docZeroPrior_def defaultState_def)
  have chg: "mn_change (getMonthlyNetWorth 2024 1 docZeroPrior) = 1000"
    "yn_change (getYearlyNetWorth 2024 docZeroPrior) = 1000"
    using prior cur
    by (simp_all add: getMonthlyNetWorth_def getYearlyNetWorth_def lym lrm Let_def
        calculateNetWorth_def)
  show ?thesis
    using percent_change_zero_prior [of 2024 1 docZeroPrior] prior chg
    by (simp add: lym)
qed

section \<open>Array search\<close>

lemma findIndex_None_iff: "findIndex P xs = None \<longleftrightarrow> (\<forall>x\<in>set xs. \<not> P x)"
  by (induction xs) auto

lemma findIndex_SomeD:
  "findIndex P xs = Some k \<Longrightarrow> k < length xs \<and> P (xs ! k) \<and> (\<forall>y\<in>set (take k xs). \<not> P y)"
proof (induction xs arbitrary: k)
  case Nil
  then show ?case by simp
next
  case (Cons x xs)
  show ?case
  proof (cases "P x")
    case True
    with Cons.prems show ?thesis by simp
  next
    case False
    with Cons.prems obtain j where j: "findIndex P xs = Some j" "k = Suc j"
      by auto
    from Cons.IH [OF j(1)] False j(2) show ?thesis by simp
  qed
qed

lemma findIndex_Some_iff_ex: "(\<exists>k. findIndex P xs = Some k) \<longleftrightarrow> (\<exists>x\<in>set xs. P x)"
  using findIndex_None_iff [of P xs] by (cases "findIndex P xs") auto

lemma accounts_loadData [simp]: "accounts (loadData st) = accounts st"
  and records_loadData [simp]: "records (loadData st) = records st"
  and logs_loadData [simp]: "logs (loadData st) = logs st"
  and settings_loadData [simp]: "settings (loadData st) = settings st"
  by (simp_all add: loadData_def)

section \<open>Unknown identifiers\<close>

text \<open>
  C3 (amended). With an identifier that no account of the document has, \<open>updateAccount\<close>
  returns null and \<open>deleteAccount\<close> returns false, both leaving the stored document
  unchanged. \<open>setMonthlyRecord\<close> with such an account identifier is not a no-op: it still
  upserts the record for (accountId, year, month) with the given balance and returns it
  (a new record is appended when none exists at these coordinates); it appends no log and
  leaves accounts, logs and settings unchanged.
\<close>

theorem unknown_identifier:
  assumes "\<forall>a\<in>set (accounts st). a_id a \<noteq> ident"
  shows "updateAccount e ident u st = (None, st)
     \<and> deleteAccount ident st = (False, st)
     \<and> r_accountId (fst (setMonthlyRecord e ident y m b st)) = ident
     \<and> r_year (fst (setMonthlyRecord e ident y m b st)) = y
     \<and> r_month (fst (setMonthlyRecord e ident y m b st)) = m
     \<and> r_balance (fst (setMonthlyRecord e ident y m b st)) = b
     \<and> fst (setMonthlyRecord e ident y m b st)
         \<in> set (records (snd (setMonthlyRecord e ident y m b st)))
     \<and> (findIndex (\<lambda>r. r_accountId r = ident \<and> r_year r = y \<and> r_month r = m) (records st) = None
         \<longrightarrow> records (snd (setMonthlyRecord e ident y m b st))
               = records st @ [fst (setMonthlyRecord e ident y m b st)])
     \<and> accounts (snd (setMonthlyRecord e ident y m b st)) = accounts st
     \<and> logs (snd (setMonthlyRecord e ident y m b st)) = logs st
     \<and> settings (snd (setMonthlyRecord e ident y m b st)) = settings st"
proof -
  have none: "findIndex (\<lambda>a. a_id a = ident) (accounts st) = None"
    using assms by (simp add: findIndex_None_iff)
  have nofind: "find (\<lambda>a. a_id a = ident) (accounts st) = None"
    using assms by (simp add: find_None_iff)
  have upd: "updateAccount e ident u st = (None, st)"
    using none by (simp add: updateAccount_def)
  have del: "deleteAccount ident st = (False, st)"
    using none by (simp add: deleteAccount_def)
  let ?P = "\<lambda>r. r_accountId r = ident \<and> r_year r = y \<and> r_month r = m"
  show ?thesis
  proof (cases "findIndex ?P (records st)")
    case None
    then have "setMonthlyRecord e ident y m b st =
        (\<lparr>r_id = generateId e 0, r_accountId = ident, r_year = y, r_month = m, r_balance = b\<rparr>,
         loadData st\<lparr>records := records st @
           [\<lparr>r_id = generateId e 0, r_accountId = ident, r_year = y, r_month = m,
             r_balance = b\<rparr>], logs := logs st\<rparr>)"
      using nofind by (simp add: setMonthlyRecord_def saveData_def Let_def)
    with upd del None show ?thesis by simp
  next
    case (Some i)
    from findIndex_SomeD [OF Some]
    have lt: "i < length (records st)" and hit: "?P (records st ! i)" by simp_all
    have "setMonthlyRecord e ident y m b st =
        ((records st ! i)\<lparr>r_balance := b\<rparr>,
         loadData st\<lparr>records := (records st)[i := (records st ! i)\<lparr>r_balance := b\<rparr>],
           logs := logs st\<rparr>)"
      using nofind Some by (simp add: setMonthlyRecord_def saveData_def Let_def)
    with upd del Some lt hit show ?thesis
      by (simp add: set_update_memI)
  qed
qed

theorem unknown_identifier_witness:
  "updateAccount env0 ''ghost'' renameOnly docOne = (None, docOne)
   \<and> deleteAccount ''ghost'' docOne = (False, docOne)
   \<and> r_balance (fst (setMonthlyRecord env0 ''ghost'' 2024 1 5 docOne)) = 5
   \<and> length (records (snd (setMonthlyRecord env0 ''ghost'' 2024 1 5 docOne))) = 1
   \<and> logs (snd (setMonthlyRecord env0 ''ghost'' 2024 1 5 docOne)) = []"
proof -
  have unknown: "\<forall>a\<in>set (accounts docOne). a_id a \<noteq> ''ghost''"
    by (simp add: docOne_def cashAcc_def)
  have norec: "findIndex (\<lambda>r. r_accountId r = ''ghost'' \<and> r_year r = 2024 \<and> r_month r = 1)
                 (records docOne) = None"
    by (simp add: docOne_def defaultState_def)
  from unknown_identifier [OF unknown, of env0 renameOnly 2024 1 5] norec
  show ?thesis by (simp add: docOne_def defaultState_def)
qed

text \<open>
  C3 as stated fails: on the empty document, \<open>setMonthlyRecord\<close> for the unknown account
  \<open>ghost\<close> stores a record for it, so the stored document changes.
\<close>

theorem setMonthlyRecord_unknown_account_counterexample:
  "find (\<lambda>a. a_id a = ''ghost'') (accounts defaultState) = None
   \<and> snd (setMonthlyRecord env0 ''ghost'' 2024 1 5 defaultState) \<noteq> defaultState
   \<and> map r_accountId (records (snd (setMonthlyRecord env0 ''ghost'' 2024 1 5 defaultState)))
       = [''ghost'']"
  by (simp add: setMonthlyRecord_def defaultState_def loadData_def saveData_def env0_def Let_def)

section \<open>The account-edit log\<close>

text \<open>
  C4 (amended). When \<open>updateAccount\<close> finds the account and any of name, note, type or
  icon changed, the last log appended is an account-edit log whose old balance is the
  balance the account had before the call and whose new balance is the balance after the
  merge, the account's current balance. The two are equal, both the current balance,
  exactly when the call did not change the balance.
\<close>

theorem account_edit_log_balances:
  assumes "findIndex (\<lambda>a. a_id a = ident) (accounts st) = Some index"
    and "infoChanged (accounts st ! index) u"
  shows "fst (updateAccount e ident u st) = Some (mergeAccount (accounts st ! index) u)
     \<and> l_operationType (last (logs (snd (updateAccount e ident u st)))) = Some Account_edit
     \<and> l_oldBalance (last (logs (snd (updateAccount e ident u st))))
         = a_balance (accounts st ! index)
     \<and> l_newBalance (last (logs (snd (updateAccount e ident u st))))
         = a_balance (mergeAccount (accounts st ! index) u)
     \<and> (l_oldBalance (last (logs (snd (updateAccount e ident u st))))
          = l_newBalance (last (logs (snd (updateAccount e ident u st))))
        \<longleftrightarrow> \<not> balanceChanged (accounts st ! index) u)"
  using assms
  by (auto simp add: updateAccount_def saveData_def Let_def split_beta balanceChanged_def
      mergeAccount_def split: option.splits)

theorem account_edit_log_balances_witness:
  "fst (updateAccount env0 ''acc-cash'' renameOnly docOne) = Some (cashAcc\<lparr>a_name := ''Purse''\<rparr>)
   \<and> l_oldBalance (last (logs (snd (updateAccount env0 ''acc-cash'' renameOnly docOne)))) = 1000
   \<and> l_newBalance (last (logs (snd (updateAccount env0 ''acc-cash'' renameOnly docOne)))) = 1000"
proof -
  have idx: "findIndex (\<lambda>a. a_id a = ''acc-cash'') (accounts docOne) = Some 0"
    by (simp add: docOne_def cashAcc_def)
  have chg: "infoChanged (accounts docOne ! 0) renameOnly"
    by (simp add: docOne_def cashAcc_def infoChanged_def renameOnly_def noUpdates_def)
  from account_edit_log_balances [OF idx chg, of env0]
  show ?thesis
    by (simp add: docOne_def cashAcc_def mergeAccount_def renameOnly_def noUpdates_def)
qed

text \<open>
  C4 as stated fails: renaming an account of balance 1000 and setting its balance to 800
  in one call appends an account-edit log with old balance 1000 and new balance 800, while
  the account's current balance is 800.
\<close>

theorem account_edit_log_counterexample:
  "infoChanged cashAcc renameAndRebalance
   \<and> l_operationType (last (logs (snd (updateAccount env0 ''acc-cash'' renameAndRebalance docOne))))
       = Some Account_edit
   \<and> l_oldBalance (last (logs (snd (updateAccount env0 ''acc-cash'' renameAndRebalance docOne))))
       = 1000
   \<and> l_newBalance (last (logs (snd (updateAccount env0 ''acc-cash'' renameAndRebalance docOne))))
       = 800
   \<and> map_option a_balance (fst (updateAccount env0 ''acc-cash'' renameAndRebalance docOne))
       = Some 800"
  by (simp add: updateAccount_def docOne_def defaultState_def loadData_def saveData_def
      cashAcc_def renameAndRebalance_def noUpdates_def infoChanged_def mergeAccount_def
      env0_def Let_def)

section \<open>Import and export\<close>

text \<open>
  C5. \<open>importData\<close> on malformed input (unparseable text, a parsed value without fields,
  or a payload missing \<open>accounts\<close> or \<open>records\<close>) returns false and leaves the stored
  document exactly as it was, whatever the target period and the merge mode.
\<close>

theorem importData_malformed:
  assumes "inp = Unparseable \<or> inp = NotAnObject
           \<or> (\<exists>p. inp = Document p \<and> (p_accounts p = None \<or> p_records p = None))"
  shows "importData e inp targetYear targetMonth mergeMode st = (False, st)"
  using assms by (auto simp add: importData_def split: option.splits)

theorem importData_malformed_witness:
  "importData env0 Unparseable (Some 2024) (Some 1) Overwrite docTwo = (False, docTwo)
   \<and> importData env0 NotAnObject None None Merge docTwo = (False, docTwo)
   \<and> importData env0
        (Document \<lparr>p_accounts = Some [cashAcc], p_records = None, p_logs = Some [],
                    p_settings = None, p_version = None\<rparr>)
        (Some 2024) (Some 1) Merge docTwo = (False, docTwo)"
  using importData_malformed [of Unparseable env0 "Some 2024" "Some 1" Overwrite docTwo]
    importData_malformed [of NotAnObject env0 None None Merge docTwo]
    importData_malformed [of "Document \<lparr>p_accounts = Some [cashAcc], p_records = None,
        p_logs = Some [], p_settings = None, p_version = None\<rparr>" env0 "Some 2024" "Some 1" Merge docTwo]
  by simp

text \<open>
  C6. Exporting a document with \<open>exportDataByRange\<close> over an inclusive range and importing
  the result with no target period (whole-document replace) succeeds and stores the
  accounts of the original, and its records and logs restricted to the range, the range
  being decided by comparing \<open>year * 100 + month\<close>.
\<close>

theorem export_import_roundtrip:
  "fst (importData e (exportDataByRange sy sm ey em st) None None mergeMode st0) = True
   \<and> accounts (snd (importData e (exportDataByRange sy sm ey em st) None None mergeMode st0))
       = accounts st
   \<and> records (snd (importData e (exportDataByRange sy sm ey em st) None None mergeMode st0))
       = filter (\<lambda>r. sy * 100 + sm \<le> r_year r * 100 + r_month r
                    \<and> r_year r * 100 + r_month r \<le> ey * 100 + em) (records st)
   \<and> logs (snd (importData e (exportDataByRange sy sm ey em st) None None mergeMode st0))
       = filter (\<lambda>l. sy * 100 + sm \<le> l_year l * 100 + l_month l
                    \<and> l_year l * 100 + l_month l \<le> ey * 100 + em) (logs st)"
proof -
  let ?recs = "filter (\<lambda>r. sy * 100 + sm \<le> r_year r * 100 + r_month r
                         \<and> r_year r * 100 + r_month r \<le> ey * 100 + em) (records st)"
  let ?logs = "filter (\<lambda>l. sy * 100 + sm \<le> l_year l * 100 + l_month l
                         \<and> l_year l * 100 + l_month l \<le> ey * 100 + em) (logs st)"
  have exported: "exportDataByRange sy sm ey em st =
      Document \<lparr>p_accounts = Some (accounts st), p_records = Some ?recs, p_logs = Some ?logs,
                 p_settings = None, p_version = Some CURRENT_VERSION\<rparr>"
    by (simp add: exportDataByRange_def inRange_def Let_def)
  have imported: "importData e (exportDataByRange sy sm ey em st) None None mergeMode st0 =
      (True, \<lparr>accounts = accounts st, records = ?recs, logs = ?logs,
               settings = defaultSettings, version = CURRENT_VERSION\<rparr>)"
    unfolding exported by (simp add: importData_def saveData_def mergeSettings_def)
  show ?thesis unfolding imported by simp
qed

section \<open>Deleting a monthly record\<close>

text \<open>
  C10. \<open>deleteMonthlyRecord\<close> with an identifier that no record has returns false and
  leaves the document unchanged. Otherwise it returns true and removes exactly one record,
  the first whose id is that identifier; all other records, the accounts, the logs and the
  settings are unchanged, so no log is appended.
\<close>

theorem deleteMonthlyRecord_effect:
  "((\<forall>r\<in>set (records st). r_id r \<noteq> recordId)
      \<longrightarrow> deleteMonthlyRecord recordId st = (False, st))
   \<and> ((\<exists>r\<in>set (records st). r_id r = recordId)
      \<longrightarrow> (\<exists>pre r post.
            records st = pre @ r # post \<and> r_id r = recordId
            \<and> (\<forall>x\<in>set pre. r_id x \<noteq> recordId)
            \<and> fst (deleteMonthlyRecord recordId st) = True
            \<and> records (snd (deleteMonthlyRecord recordId st)) = pre @ post
            \<and> accounts (snd (deleteMonthlyRecord recordId st)) = accounts st
            \<and> logs (snd (deleteMonthlyRecord recordId st)) = logs st
            \<and> settings (snd (deleteMonthlyRecord recordId st)) = settings st))"
proof (intro conjI impI)
  assume "\<forall>r\<in>set (records st). r_id r \<noteq> recordId"
  then have "findIndex (\<lambda>r. r_id r = recordId) (records st) = None"
    by (simp add: findIndex_None_iff)
  then show "deleteMonthlyRecord recordId st = (False, st)"
    by (simp add: deleteMonthlyRecord_def)
next
  assume "\<exists>r\<in>set (records st). r_id r = recordId"
  then obtain k where k: "findIndex (\<lambda>r. r_id r = recordId) (records st) = Some k"
    using findIndex_Some_iff_ex [of "\<lambda>r. r_id r = recordId" "records st"] by blast
  from findIndex_SomeD [OF k]
  have lt: "k < length (records st)" and hit: "r_id (records st ! k) = recordId"
    and before: "\<forall>x\<in>set (take k (records st)). r_id x \<noteq> recordId"
    by simp_all
  have split: "records st = take k (records st) @ (records st ! k) # drop (Suc k) (records st)"
    using lt by (rule id_take_nth_drop)
  have res: "deleteMonthlyRecord recordId st
      = (True, saveData (loadData st\<lparr>records := take k (records st) @ drop (Suc k) (records st)\<rparr>))"
    using k by (simp add: deleteMonthlyRecord_def)
  show "\<exists>pre r post.
            records st = pre @ r # post \<and> r_id r = recordId
            \<and> (\<forall>x\<in>set pre. r_id x \<noteq> recordId)
            \<and> fst (deleteMonthlyRecord recordId st) = True
            \<and> records (snd (deleteMonthlyRecord recordId st)) = pre @ post
            \<and> accounts (snd (deleteMonthlyRecord recordId st)) = accounts st
            \<and> logs (snd (deleteMonthlyRecord recordId st)) = logs st
            \<and> settings (snd (deleteMonthlyRecord recordId st)) = settings st"
    apply (rule exI [of _ "take k (records st)"])
    apply (rule exI [of _ "records st ! k"])
    apply (rule exI [of _ "drop (Suc k) (records st)"])
    using split hit before by (simp add: res saveData_def)
qed


theorem deleteMonthlyRecord_effect_witness:
  "deleteMonthlyRecord ''rec-0'' docTwo = (False, docTwo)
   \<and> fst (deleteMonthlyRecord ''rec-1'' docTwo) = True
   \<and> map r_id (records (snd (deleteMonthlyRecord ''rec-1'' docTwo))) = [''rec-2'']
   \<and> logs (snd (deleteMonthlyRecord ''rec-1'' docTwo)) = logs docTwo"
proof -
  have absent: "\<forall>r\<in>set (records docTwo). r_id r \<noteq> ''rec-0''"
    by (simp add: docTwo_def defaultState_def)
  have present: "\<exists>r\<in>set (records docTwo). r_id r = ''rec-1''"
    by (simp add: docTwo_def defaultState_def)
  from deleteMonthlyRecord_effect [of docTwo "''rec-0''"] absent
  have 1: "deleteMonthlyRecord ''rec-0'' docTwo = (False, docTwo)" by blast
  from deleteMonthlyRecord_effect [of docTwo "''rec-1''"] present
  obtain pre r post where s: "records docTwo = pre @ r # post" "r_id r = ''rec-1''"
     "\<forall>x\<in>set pre. r_id x \<noteq> ''rec-1''"
     "fst (deleteMonthlyRecord ''rec-1'' docTwo) = True"
     "records (snd (deleteMonthlyRecord ''rec-1'' docTwo)) = pre @ post"
     "logs (snd (deleteMonthlyRecord ''rec-1'' docTwo)) = logs docTwo"
    by blast
  have "map r_id (records docTwo) = [''rec-1'', ''rec-2'']"
    by (simp add: docTwo_def defaultState_def)
  with s(1,2,3) have "map r_id (pre @ post) = [''rec-2'']"
    by (cases pre) auto
  with 1 s show ?thesis by simp
qed

section \<open>Preserving the uniqueness invariant\<close>

text \<open>
  \<open>uniqueRecords\<close> says that every key (account, year, month) selects at most one record.
\<close>

lemma distinct_map_filter_length:
  "distinct (map f xs) \<longleftrightarrow> (\<forall>k. length (filter (\<lambda>r. f r = k) xs) \<le> 1)"
proof (induction xs)
  case Nil
  show ?case by simp
next
  case (Cons x xs)
  have fresh: "f x \<notin> f ` set xs \<longleftrightarrow> filter (\<lambda>r. f r = f x) xs = []"
    unfolding filter_empty_conv by (metis imageE imageI)
  show ?case
  proof
    assume "distinct (map f (x # xs))"
    then have new: "filter (\<lambda>r. f r = f x) xs = []"
      and rest: "\<forall>k. length (filter (\<lambda>r. f r = k) xs) \<le> 1"
      using fresh Cons.IH by simp_all
    show "\<forall>k. length (filter (\<lambda>r. f r = k) (x # xs)) \<le> 1"
    proof
      fix k
      show "length (filter (\<lambda>r. f r = k) (x # xs)) \<le> 1"
        using new rest [rule_format, of k] by (cases "f x = k") simp_all
    qed
  next
    assume all: "\<forall>k. length (filter (\<lambda>r. f r = k) (x # xs)) \<le> 1"
    from all [rule_format, of "f x"] have "filter (\<lambda>r. f r = f x) xs = []" by simp
    then have 1: "f x \<notin> f ` set xs" using fresh by simp
    have "length (filter (\<lambda>r. f r = k) xs) \<le> 1" for k
      using all [rule_format, of k] by (cases "f x = k") simp_all
    then have "distinct (map f xs)" using Cons.IH by simp
    with 1 show "distinct (map f (x # xs))" by simp
  qed
qed

lemma uniqueRecords_iff:
  "uniqueRecords recs \<longleftrightarrow> (\<forall>k. length (filter (\<lambda>r. recKey r = k) recs) \<le> 1)"
  unfolding uniqueRecords_def by (rule distinct_map_filter_length)

lemma recKey_balance_update [simp]: "recKey (r\<lparr>r_balance := b\<rparr>) = recKey r"
  by (simp add: recKey_def)

lemma map_recKey_balance_update:
  "map recKey (recs[i := (recs ! i)\<lparr>r_balance := b\<rparr>]) = map recKey recs"
proof (cases "i < length recs")
  case True
  then show ?thesis by (simp add: map_update list_update_same_conv)
next
  case False
  then show ?thesis by (simp add: list_update_beyond)
qed

lemma uniqueRecords_balance_update:
  "uniqueRecords recs \<Longrightarrow> uniqueRecords (recs[i := (recs ! i)\<lparr>r_balance := b\<rparr>])"
  by (simp add: uniqueRecords_def map_recKey_balance_update)

lemma uniqueRecords_append_new:
  assumes "uniqueRecords recs"
    and "findIndex (\<lambda>r. r_accountId r = a \<and> r_year r = y \<and> r_month r = m) recs = None"
  shows "uniqueRecords (recs @ [\<lparr>r_id = i, r_accountId = a, r_year = y, r_month = m,
                                  r_balance = b\<rparr>])"
proof -
  have "(a, y, m) \<notin> set (map recKey recs)"
    using assms(2) by (auto simp add: findIndex_None_iff recKey_def)
  with assms(1) show ?thesis by (simp add: uniqueRecords_def recKey_def)
qed

lemma copyLoop_unique:
  "uniqueRecords recs \<Longrightarrow> uniqueRecords (copyLoop gen n y m recs todo)"
proof (induction todo arbitrary: recs n)
  case Nil
  then show ?case by simp
next
  case (Cons r todo)
  show ?case
  proof (cases "findIndex (\<lambda>x. r_accountId x = r_accountId r \<and> r_year x = y \<and> r_month x = m) recs")
    case None
    with Cons.prems have "uniqueRecords (recs @ [\<lparr>r_id = gen n, r_accountId = r_accountId r,
        r_year = y, r_month = m, r_balance = r_balance r\<rparr>])"
      by (simp add: uniqueRecords_append_new)
    then show ?thesis using None by (simp add: Cons.IH)
  next
    case (Some i)
    from Cons.prems have "uniqueRecords (recs[i := (recs ! i)\<lparr>r_balance := r_balance r\<rparr>])"
      by (rule uniqueRecords_balance_update)
    then show ?thesis using Some by (simp add: Cons.IH)
  qed
qed

lemma copyLastMonthBalances_records:
  "records (copyLastMonthBalances e y m st) =
     copyLoop (generateId e) 0 y m (records st)
       (filter (\<lambda>r. r_year r = fst (lastYearMonth y m) \<and> r_month r = snd (lastYearMonth y m))
          (records st))"
  by (simp add: copyLastMonthBalances_def saveData_calc_def split_beta)

lemma setMonthlyRecord_records:
  "records (snd (setMonthlyRecord e a y m b st)) =
     (case findIndex (\<lambda>r. r_accountId r = a \<and> r_year r = y \<and> r_month r = m) (records st) of
        Some i \<Rightarrow> (records st)[i := (records st ! i)\<lparr>r_balance := b\<rparr>]
      | None \<Rightarrow> records st @
          [\<lparr>r_id = r_id (fst (setMonthlyRecord e a y m b st)), r_accountId = a, r_year = y,
            r_month = m, r_balance = b\<rparr>])"
  by (simp add: setMonthlyRecord_def saveData_def Let_def split_beta split: option.splits)

lemma setMonthlyRecord_unique:
  "uniqueRecords (records st) \<Longrightarrow> uniqueRecords (records (snd (setMonthlyRecord e a y m b st)))"
  unfolding setMonthlyRecord_records
  by (simp add: uniqueRecords_balance_update uniqueRecords_append_new split: option.splits)

lemma updateAccount_records:
  "records (snd (updateAccount e ident u st)) = records st
   \<or> (\<exists>i b. records (snd (updateAccount e ident u st))
              = (records st)[i := (records st ! i)\<lparr>r_balance := b\<rparr>])
   \<or> (findIndex (\<lambda>r. r_accountId r = ident \<and> r_year r = nowYear e \<and> r_month r = nowMonth e)
         (records st) = None
       \<and> (\<exists>i b. records (snd (updateAccount e ident u st))
              = records st @ [\<lparr>r_id = i, r_accountId = ident, r_year = nowYear e,
                               r_month = nowMonth e, r_balance = b\<rparr>]))"
  by (auto simp add: updateAccount_def saveData_def Let_def split_beta split: option.splits)

lemma updateAccount_unique:
  assumes "uniqueRecords (records st)"
  shows "uniqueRecords (records (snd (updateAccount e ident u st)))"
  using updateAccount_records [of e ident u st] assms
  by (auto simp add: uniqueRecords_balance_update uniqueRecords_append_new)

lemma addAccount_unique:
  assumes "uniqueRecords (records st)"
    and "generateId e 0 \<notin> r_accountId ` set (records st)"
  shows "uniqueRecords (records (snd (addAccount e account st)))"
proof -
  have "findIndex (\<lambda>r. r_accountId r = generateId e 0 \<and> r_year r = nowYear e
                       \<and> r_month r = nowMonth e) (records st) = None"
    unfolding findIndex_None_iff using assms(2) by (metis imageI)
  from uniqueRecords_append_new [OF assms(1) this] assms(1)
  show ?thesis by (simp add: addAccount_def saveData_def Let_def)
qed

lemma setMonthlyRecord_finds:
  "findIndex (\<lambda>r. r_accountId r = a \<and> r_year r = y \<and> r_month r = m)
     (records (snd (setMonthlyRecord e a y m b st))) \<noteq> None"
proof -
  have "fst (setMonthlyRecord e a y m b st) \<in> set (records (snd (setMonthlyRecord e a y m b st)))
      \<and> r_accountId (fst (setMonthlyRecord e a y m b st)) = a
      \<and> r_year (fst (setMonthlyRecord e a y m b st)) = y
      \<and> r_month (fst (setMonthlyRecord e a y m b st)) = m"
  proof (cases "findIndex (\<lambda>r. r_accountId r = a \<and> r_year r = y \<and> r_month r = m) (records st)")
    case None
    then show ?thesis by (simp add: setMonthlyRecord_def saveData_def Let_def split_beta)
  next
    case (Some i)
    from findIndex_SomeD [OF Some] Some show ?thesis
      by (simp add: setMonthlyRecord_def saveData_def Let_def split_beta set_update_memI)
  qed
  then show ?thesis
    using findIndex_None_iff [of "\<lambda>r. r_accountId r = a \<and> r_year r = y \<and> r_month r = m"
        "records (snd (setMonthlyRecord e a y m b st))"]
    by blast
qed

lemma setMonthlyRecord_repeat_length:
  "length (records (snd (setMonthlyRecord e2 a y m b2 (snd (setMonthlyRecord e1 a y m b1 st)))))
   = length (records (snd (setMonthlyRecord e1 a y m b1 st)))"
  using setMonthlyRecord_finds [of a y m e1 b1 st]
  unfolding setMonthlyRecord_records [of e2]
  by (auto split: option.splits)

lemma importData_whole_records:
  "p_accounts p = Some as \<Longrightarrow> p_records p = Some rs \<Longrightarrow>
   records (snd (importData e (Document p) None None mergeMode st)) = rs"
  by (simp add: importData_def saveData_def)

text \<open>
  C2 (amended). At most one monthly record per (account, year, month) is an invariant of
  \<open>addAccount\<close> (when the identifier generated for the new account is not already the
  account of a stored record), \<open>updateAccount\<close>, \<open>setMonthlyRecord\<close> and
  \<open>copyLastMonthBalances\<close>; a second \<open>setMonthlyRecord\<close> with the same coordinates finds
  the record of the first and does not add another. \<open>importData\<close> does not keep the
  invariant: with no target period it stores the records of the payload as they are, so the
  invariant holds afterwards exactly when it holds of the payload.
\<close>

theorem uniqueRecords_preserved:
  assumes "uniqueRecords (records st)"
  shows "(generateId e 0 \<notin> r_accountId ` set (records st)
           \<longrightarrow> uniqueRecords (records (snd (addAccount e account st))))
     \<and> uniqueRecords (records (snd (updateAccount e ident u st)))
     \<and> uniqueRecords (records (snd (setMonthlyRecord e a y m b st)))
     \<and> length (records (snd (setMonthlyRecord e' a y m b'
                 (snd (setMonthlyRecord e a y m b st)))))
         = length (records (snd (setMonthlyRecord e a y m b st)))
     \<and> uniqueRecords (records (copyLastMonthBalances e y m st))
     \<and> (p_accounts p = Some as \<longrightarrow> p_records p = Some rs
           \<longrightarrow> uniqueRecords (records (snd (importData e (Document p) None None mergeMode st)))
               = uniqueRecords rs)"
proof (intro conjI impI)
  assume "generateId e 0 \<notin> r_accountId ` set (records st)"
  with assms show "uniqueRecords (records (snd (addAccount e account st)))"
    by (rule addAccount_unique)
next
  from assms show "uniqueRecords (records (snd (updateAccount e ident u st)))"
    by (rule updateAccount_unique)
next
  from assms show "uniqueRecords (records (snd (setMonthlyRecord e a y m b st)))"
    by (rule setMonthlyRecord_unique)
next
  show "length (records (snd (setMonthlyRecord e' a y m b' (snd (setMonthlyRecord e a y m b st)))))
         = length (records (snd (setMonthlyRecord e a y m b st)))"
    by (rule setMonthlyRecord_repeat_length)
next
  from assms show "uniqueRecords (records (copyLastMonthBalances e y m st))"
    unfolding copyLastMonthBalances_records by (rule copyLoop_unique)
next
  assume "p_accounts p = Some as" and "p_records p = Some rs"
  then show "uniqueRecords (records (snd (importData e (Document p) None None mergeMode st)))
               = uniqueRecords rs"
    by (simp add: importData_whole_records)
qed

lemma docTwo_unique: "uniqueRecords (records docTwo)"
  by (simp add: docTwo_def defaultState_def uniqueRecords_def recKey_def)

theorem uniqueRecords_preserved_witness:
  "uniqueRecords (records docTwo)
   \<and> uniqueRecords (records (snd (addAccount env0 cashAcc docTwo)))
   \<and> uniqueRecords (records (snd (updateAccount env0 ''acc-cash'' renameAndRebalance docTwo)))
   \<and> uniqueRecords (records (snd (setMonthlyRecord env0 ''acc-cash'' 2024 1 5 docTwo)))
   \<and> length (records (snd (setMonthlyRecord env0 ''acc-cash'' 2024 1 7
                (snd (setMonthlyRecord env0 ''acc-cash'' 2024 1 5 docTwo)))))
       = length (records (snd (setMonthlyRecord env0 ''acc-cash'' 2024 1 5 docTwo)))
   \<and> uniqueRecords (records (copyLastMonthBalances env0 2024 1 docTwo))
   \<and> \<not> uniqueRecords (records (snd (importData env0 (Document dupPayload) None None Merge docTwo)))"
proof -
  have fresh: "generateId env0 0 \<notin> r_accountId ` set (records docTwo)"
    by (simp add: env0_def docTwo_def defaultState_def)
  have pl: "p_accounts dupPayload = Some [cashAcc]"
    "p_records dupPayload = Some (the (p_records dupPayload))"
    by (simp_all add: dupPayload_def)
  have dup: "\<not> uniqueRecords (the (p_records dupPayload))"
    by (simp add: dupPayload_def uniqueRecords_def recKey_def)
  from uniqueRecords_preserved [OF docTwo_unique, of env0 cashAcc "''acc-cash''"
      renameAndRebalance "''acc-cash''" 2024 1 5 env0 7 dupPayload "[cashAcc]"
      "the (p_records dupPayload)" Merge]
    fresh pl dup docTwo_unique
  show ?thesis by simp
qed

text \<open>
  C2 as stated fails for \<open>importData\<close>. The document \<open>docTwo\<close> satisfies the invariant, and
  so does its own export; importing the export of January 2024 into January 2024 in merge
  mode appends a second record for the same account and month. Importing the export of
  two months into one target month in overwrite mode, and replacing the document by a
  payload that holds a duplicate, break the invariant as well.
\<close>

theorem importData_duplicates_counterexample:
  "uniqueRecords (records docTwo)
   \<and> fst (importData env0 (exportDataByRange 2024 1 2024 1 docTwo) (Some 2024) (Some 1) Merge
            docTwo) = True
   \<and> \<not> uniqueRecords (records (snd
         (importData env0 (exportDataByRange 2024 1 2024 1 docTwo) (Some 2024) (Some 1) Merge
            docTwo)))
   \<and> \<not> uniqueRecords (records (snd
         (importData env0 (exportDataByRange 2023 12 2024 1 docTwo) (Some 2024) (Some 2)
            Overwrite docTwo)))
   \<and> \<not> uniqueRecords (records (snd
         (importData env0 (Document dupPayload) None None Merge docTwo)))"
  by (simp add: importData_def exportDataByRange_def inRange_def saveData_def loadData_def
      docTwo_def defaultState_def dupPayload_def uniqueRecords_def recKey_def Let_def
      enumerate_simps)


section \<open>Copying last month's balances\<close>

lemma find_update_hit:
  "findIndex P xs = Some i \<Longrightarrow> P x' \<Longrightarrow> find P (xs[i := x']) = Some x'"
proof (induction xs arbitrary: i)
  case Nil
  then show ?case by simp
next
  case (Cons x xs)
  show ?case
  proof (cases "P x")
    case True
    with Cons.prems show ?thesis by simp
  next
    case False
    with Cons.prems obtain j where j: "findIndex P xs = Some j" "i = Suc j" by auto
    from Cons.IH [OF j(1) Cons.prems(2)] False j(2) show ?thesis by simp
  qed
qed

lemma find_update_miss:
  "i < length xs \<Longrightarrow> \<not> Q (xs ! i) \<Longrightarrow> \<not> Q x' \<Longrightarrow> find Q (xs[i := x']) = find Q xs"
proof (induction xs arbitrary: i)
  case Nil
  then show ?case by simp
next
  case (Cons x xs)
  then show ?case by (cases i) auto
qed

lemma find_append_one:
  "find Q (xs @ [x]) = (case find Q xs of Some v \<Rightarrow> Some v | None \<Rightarrow> if Q x then Some x else None)"
  by (induction xs) auto

text \<open>One iteration of the loop, seen through the lookup of an account at the target month.\<close>

lemma copyLoop_other:
  "a \<notin> r_accountId ` set todo \<Longrightarrow>
   find (\<lambda>x. r_accountId x = a \<and> r_year x = y \<and> r_month x = m) (copyLoop gen n y m recs todo)
   = find (\<lambda>x. r_accountId x = a \<and> r_year x = y \<and> r_month x = m) recs"
proof (induction todo arbitrary: recs n)
  case Nil
  show ?case by simp
next
  case (Cons r todo)
  let ?Q = "\<lambda>x. r_accountId x = a \<and> r_year x = y \<and> r_month x = m"
  let ?P = "\<lambda>x. r_accountId x = r_accountId r \<and> r_year x = y \<and> r_month x = m"
  from Cons.prems have ne: "r_accountId r \<noteq> a" and rest: "a \<notin> r_accountId ` set todo"
    by auto
  show ?case
  proof (cases "findIndex ?P recs")
    case None
    then have nofind: "find ?Q recs = find ?Q recs" by simp
    have "find ?Q (recs @ [\<lparr>r_id = gen n, r_accountId = r_accountId r, r_year = y,
             r_month = m, r_balance = r_balance r\<rparr>]) = find ?Q recs"
      using ne by (simp add: find_append_one split: option.splits)
    with None show ?thesis by (simp add: Cons.IH [OF rest])
  next
    case (Some i)
    from findIndex_SomeD [OF Some] have lt: "i < length recs" and hit: "?P (recs ! i)"
      by simp_all
    have "find ?Q (recs[i := (recs ! i)\<lparr>r_balance := r_balance r\<rparr>]) = find ?Q recs"
      using lt hit ne by (intro find_update_miss) auto
    with Some show ?thesis by (simp add: Cons.IH [OF rest])
  qed
qed

lemma copyLoop_hit:
  assumes "distinct (map r_accountId todo)" and "r \<in> set todo"
  shows "\<exists>r'. find (\<lambda>x. r_accountId x = r_accountId r \<and> r_year x = y \<and> r_month x = m)
                (copyLoop gen n y m recs todo) = Some r'
              \<and> r_balance r' = r_balance r"
  using assms
proof (induction todo arbitrary: recs n)
  case Nil
  then show ?case by simp
next
  case (Cons t todo)
  let ?P = "\<lambda>x. r_accountId x = r_accountId t \<and> r_year x = y \<and> r_month x = m"
  let ?new = "\<lparr>r_id = gen n, r_accountId = r_accountId t, r_year = y, r_month = m,
                r_balance = r_balance t\<rparr>"
  from Cons.prems(1) have notin: "r_accountId t \<notin> r_accountId ` set todo"
    and dist: "distinct (map r_accountId todo)" by auto
  show ?case
  proof (cases "r \<in> set todo")
    case True
    from Cons.IH [OF dist True] show ?thesis
      by (cases "findIndex ?P recs") simp_all
  next
    case False
    with Cons.prems(2) have eq: "r = t" by simp
    show ?thesis
    proof (cases "findIndex ?P recs")
      case None
      then have "find ?P recs = None"
        by (simp add: findIndex_None_iff find_None_iff)
      then have "find ?P (recs @ [?new]) = Some ?new"
        by (simp add: find_append_one)
      then have "find ?P (copyLoop gen (Suc n) y m (recs @ [?new]) todo) = Some ?new"
        using copyLoop_other [OF notin, of y m gen "Suc n" "recs @ [?new]"] by simp
      with None eq show ?thesis by simp
    next
      case (Some i)
      let ?upd = "(recs ! i)\<lparr>r_balance := r_balance t\<rparr>"
      from findIndex_SomeD [OF Some] have hit: "?P (recs ! i)" by simp
      then have "?P ?upd" by simp
      with Some have "find ?P (recs[i := ?upd]) = Some ?upd"
        by (rule find_update_hit)
      then have "find ?P (copyLoop gen n y m (recs[i := ?upd]) todo) = Some ?upd"
        using copyLoop_other [OF notin, of y m gen n "recs[i := ?upd]"] by simp
      with Some eq show ?thesis by simp
    qed
  qed
qed

lemma unique_month_accounts:
  assumes "uniqueRecords recs"
  shows "distinct (map r_accountId (filter (\<lambda>r. r_year r = ly \<and> r_month r = lm) recs))"
proof -
  let ?f = "filter (\<lambda>r. r_year r = ly \<and> r_month r = lm) recs"
  from assms have "distinct (map recKey ?f)"
    unfolding uniqueRecords_def by (rule distinct_map_filter)
  moreover have "map recKey ?f = map (\<lambda>r. (r_accountId r, ly, lm)) ?f"
    by (simp add: recKey_def)
  ultimately have "distinct (map ((\<lambda>a. (a, ly, lm)) \<circ> r_accountId) ?f)"
    by (simp add: comp_def)
  then have "distinct (map (\<lambda>a. (a, ly, lm)) (map r_accountId ?f))"
    by (simp only: map_map)
  then show ?thesis by (auto simp add: distinct_map inj_on_def)
qed

lemma copyLoop_keys:
  "set (map recKey recs) \<subseteq> set (map recKey (copyLoop gen n y m recs todo))"
proof (induction todo arbitrary: recs n)
  case Nil
  show ?case by simp
next
  case (Cons t todo)
  show ?case
  proof (cases "findIndex (\<lambda>x. r_accountId x = r_accountId t \<and> r_year x = y \<and> r_month x = m) recs")
    case None
    have "set (map recKey recs) \<subseteq> set (map recKey (recs @ [\<lparr>r_id = gen n,
        r_accountId = r_accountId t, r_year = y, r_month = m, r_balance = r_balance t\<rparr>]))"
      by auto
    also have "\<dots> \<subseteq> set (map recKey (copyLoop gen (Suc n) y m (recs @ [\<lparr>r_id = gen n,
        r_accountId = r_accountId t, r_year = y, r_month = m, r_balance = r_balance t\<rparr>]) todo))"
      by (rule Cons.IH)
    finally show ?thesis using None by simp
  next
    case (Some i)
    have "set (map recKey recs)
        = set (map recKey (recs[i := (recs ! i)\<lparr>r_balance := r_balance t\<rparr>]))"
      by (simp only: map_recKey_balance_update)
    also have "\<dots> \<subseteq> set (map recKey (copyLoop gen n y m
        (recs[i := (recs ! i)\<lparr>r_balance := r_balance t\<rparr>]) todo))"
      by (rule Cons.IH)
    finally show ?thesis using Some by simp
  qed
qed

lemma copyLoop_exists:
  "r \<in> set todo \<Longrightarrow> (r_accountId r, y, m) \<in> set (map recKey (copyLoop gen n y m recs todo))"
proof (induction todo arbitrary: recs n)
  case Nil
  then show ?case by simp
next
  case (Cons t todo)
  let ?P = "\<lambda>x. r_accountId x = r_accountId t \<and> r_year x = y \<and> r_month x = m"
  let ?new = "\<lparr>r_id = gen n, r_accountId = r_accountId t, r_year = y, r_month = m,
                r_balance = r_balance t\<rparr>"
  show ?case
  proof (cases "r \<in> set todo")
    case True
    from Cons.IH [OF True] show ?thesis
      by (cases "findIndex ?P recs") simp_all
  next
    case False
    with Cons.prems have eq: "r = t" by simp
    show ?thesis
    proof (cases "findIndex ?P recs")
      case None
      have "(r_accountId t, y, m) \<in> set (map recKey (recs @ [?new]))"
        by (simp add: recKey_def)
      with copyLoop_keys [of "recs @ [?new]" gen "Suc n" y m todo] None eq
      show ?thesis by auto
    next
      case (Some i)
      from findIndex_SomeD [OF Some] have "i < length recs" "recKey (recs ! i) = (r_accountId t, y, m)"
        by (simp_all add: recKey_def)
      then have "(r_accountId t, y, m) \<in> set (map recKey recs)"
        by (metis length_map nth_map nth_mem)
      then have "(r_accountId t, y, m)
          \<in> set (map recKey (recs[i := (recs ! i)\<lparr>r_balance := r_balance t\<rparr>]))"
        by (simp only: map_recKey_balance_update)
      with copyLoop_keys [of "recs[i := (recs ! i)\<lparr>r_balance := r_balance t\<rparr>]" gen n y m todo]
        Some eq
      show ?thesis by auto
    qed
  qed
qed

text \<open>
  What the loop leaves of the array it started from: every old record stays at its
  position and changes at most its balance, and only if it lies at the target month and
  belongs to an account that is copied; every record behind the old ones is new, lies at
  the target month and belongs to a copied account that had no record there.
\<close>

lemma copyLoop_shape:
  "length recs \<le> length (copyLoop gen n y m recs todo)
   \<and> (\<forall>i<length recs.
        copyLoop gen n y m recs todo ! i
          = (recs ! i)\<lparr>r_balance := r_balance (copyLoop gen n y m recs todo ! i)\<rparr>
        \<and> (\<not> (r_year (recs ! i) = y \<and> r_month (recs ! i) = m
                \<and> r_accountId (recs ! i) \<in> r_accountId ` set todo)
            \<longrightarrow> copyLoop gen n y m recs todo ! i = recs ! i))
   \<and> (\<forall>r'\<in>set (drop (length recs) (copyLoop gen n y m recs todo)).
        r_year r' = y \<and> r_month r' = m \<and> r_accountId r' \<in> r_accountId ` set todo
        \<and> (r_accountId r', y, m) \<notin> recKey ` set recs)"
proof (induction todo arbitrary: recs n)
  case Nil
  show ?case by simp
next
  case (Cons t todo)
  let ?P = "\<lambda>x. r_accountId x = r_accountId t \<and> r_year x = y \<and> r_month x = m"
  show ?case
  proof (cases "findIndex ?P recs")
    case None
    let ?new = "\<lparr>r_id = gen n, r_accountId = r_accountId t, r_year = y, r_month = m,
                  r_balance = r_balance t\<rparr>"
    let ?recs1 = "recs @ [?new]"
    let ?res = "copyLoop gen (Suc n) y m ?recs1 todo"
    have res: "copyLoop gen n y m recs (t # todo) = ?res" using None by simp
    have nokey: "(r_accountId t, y, m) \<notin> recKey ` set recs"
      using None by (auto simp add: findIndex_None_iff recKey_def)
    from Cons.IH [of ?recs1 "Suc n"]
    have len: "length ?recs1 \<le> length ?res"
      and old: "\<And>i. i < length ?recs1 \<Longrightarrow>
           ?res ! i = (?recs1 ! i)\<lparr>r_balance := r_balance (?res ! i)\<rparr>
           \<and> (\<not> (r_year (?recs1 ! i) = y \<and> r_month (?recs1 ! i) = m
                   \<and> r_accountId (?recs1 ! i) \<in> r_accountId ` set todo)
               \<longrightarrow> ?res ! i = ?recs1 ! i)"
      and new: "\<And>r'. r' \<in> set (drop (length ?recs1) ?res) \<Longrightarrow>
           r_year r' = y \<and> r_month r' = m \<and> r_accountId r' \<in> r_accountId ` set todo
           \<and> (r_accountId r', y, m) \<notin> recKey ` set ?recs1"
      by blast+
    have 1: "length recs \<le> length ?res" using len by simp
    have 2: "?res ! i = (recs ! i)\<lparr>r_balance := r_balance (?res ! i)\<rparr>
           \<and> (\<not> (r_year (recs ! i) = y \<and> r_month (recs ! i) = m
                   \<and> r_accountId (recs ! i) \<in> r_accountId ` set (t # todo))
               \<longrightarrow> ?res ! i = recs ! i)" if "i < length recs" for i
      using old [of i] that by (simp add: nth_append)
    have split: "drop (length recs) ?res = ?res ! length recs # drop (length ?recs1) ?res"
      using len by (simp add: Cons_nth_drop_Suc)
    have "?res ! length recs = ?new\<lparr>r_balance := r_balance (?res ! length recs)\<rparr>"
      using old [of "length recs"] by simp
    then obtain b where first: "?res ! length recs = ?new\<lparr>r_balance := b\<rparr>" ..
    have 3: "r_year r' = y \<and> r_month r' = m \<and> r_accountId r' \<in> r_accountId ` set (t # todo)
           \<and> (r_accountId r', y, m) \<notin> recKey ` set recs"
      if "r' \<in> set (drop (length recs) ?res)" for r'
    proof (cases "r' = ?res ! length recs")
      case True
      with first have "r_year r' = y \<and> r_month r' = m \<and> r_accountId r' = r_accountId t"
        by simp
      with nokey show ?thesis by simp
    next
      case False
      with that split have "r' \<in> set (drop (length ?recs1) ?res)" by simp
      from new [OF this] show ?thesis by auto
    qed
    show ?thesis unfolding res using 1 2 3 by blast
  next
    case (Some i0)
    let ?recs1 = "recs[i0 := (recs ! i0)\<lparr>r_balance := r_balance t\<rparr>]"
    let ?res = "copyLoop gen n y m ?recs1 todo"
    have res: "copyLoop gen n y m recs (t # todo) = ?res" using Some by simp
    from findIndex_SomeD [OF Some] have lt: "i0 < length recs" and hit: "?P (recs ! i0)"
      by simp_all
    have keys: "recKey ` set ?recs1 = recKey ` set recs"
      using map_recKey_balance_update [of recs i0 "r_balance t"]
      by (metis set_map)
    from Cons.IH [of ?recs1 n]
    have len: "length ?recs1 \<le> length ?res"
      and old: "\<And>i. i < length ?recs1 \<Longrightarrow>
           ?res ! i = (?recs1 ! i)\<lparr>r_balance := r_balance (?res ! i)\<rparr>
           \<and> (\<not> (r_year (?recs1 ! i) = y \<and> r_month (?recs1 ! i) = m
                   \<and> r_accountId (?recs1 ! i) \<in> r_accountId ` set todo)
               \<longrightarrow> ?res ! i = ?recs1 ! i)"
      and new: "\<And>r'. r' \<in> set (drop (length ?recs1) ?res) \<Longrightarrow>
           r_year r' = y \<and> r_month r' = m \<and> r_accountId r' \<in> r_accountId ` set todo
           \<and> (r_accountId r', y, m) \<notin> recKey ` set ?recs1"
      by blast+
    have 1: "length recs \<le> length ?res" using len by simp
    have 2: "?res ! i = (recs ! i)\<lparr>r_balance := r_balance (?res ! i)\<rparr>
           \<and> (\<not> (r_year (recs ! i) = y \<and> r_month (recs ! i) = m
                   \<and> r_accountId (recs ! i) \<in> r_accountId ` set (t # todo))
               \<longrightarrow> ?res ! i = recs ! i)" if "i < length recs" for i
    proof (cases "i = i0")
      case True
      with old [of i0] lt hit show ?thesis by simp
    next
      case False
      with old [of i] that show ?thesis by simp
    qed
    have 3: "r_year r' = y \<and> r_month r' = m \<and> r_accountId r' \<in> r_accountId ` set (t # todo)
           \<and> (r_accountId r', y, m) \<notin> recKey ` set recs"
      if "r' \<in> set (drop (length recs) ?res)" for r'
      using new [of r'] that keys by auto
    show ?thesis unfolding res using 1 2 3 by blast
  qed
qed


lemma find_exists: "(\<exists>x. find P xs = Some x) \<longleftrightarrow> (\<exists>x\<in>set xs. P x)"
  using find_None_iff [of P xs] by (cases "find P xs") auto

text \<open>
  C9 (amended). \<open>copyLastMonthBalances\<close> copies balances silently. On every document it
  leaves accounts, logs and settings unchanged, so it appends no log, and it upserts: the
  records stored before keep their position, identifier, account, year and month, and
  only a record at (year, month) of an account with a record in the preceding month may
  change its balance; every added record lies at (year, month), for an account that has a
  record in the preceding month and had none at (year, month); and for each record of the
  preceding month the lookup of its account at (year, month) finds a record afterwards.
  When the preceding month holds at most one record per account (as the uniqueness
  invariant gives, see \<open>unique_month_accounts\<close>), the record that lookup finds has the
  balance of the preceding-month record. The preceding month is December of the year
  before when \<open>month - 1\<close> is 0, and \<open>month - 1\<close> of the same year otherwise.
\<close>

theorem copyLastMonthBalances_silent:
  fixes e :: Env and year month :: int and st :: AppState
  defines "lastYear \<equiv> (if month - 1 = 0 then year - 1 else year)"
    and "lastMonth \<equiv> (if month - 1 = 0 then 12 else month - 1)"
    and "after \<equiv> copyLastMonthBalances e year month st"
  shows "accounts after = accounts st \<and> logs after = logs st \<and> settings after = settings st
     \<and> length (records st) \<le> length (records after)
     \<and> (\<forall>i<length (records st).
          records after ! i = (records st ! i)\<lparr>r_balance := r_balance (records after ! i)\<rparr>
          \<and> (\<not> (r_year (records st ! i) = year \<and> r_month (records st ! i) = month
                  \<and> (\<exists>r\<in>set (records st). r_year r = lastYear \<and> r_month r = lastMonth
                        \<and> r_accountId r = r_accountId (records st ! i)))
              \<longrightarrow> records after ! i = records st ! i))
     \<and> (\<forall>r'\<in>set (drop (length (records st)) (records after)).
          r_year r' = year \<and> r_month r' = month
          \<and> (\<exists>r\<in>set (records st). r_year r = lastYear \<and> r_month r = lastMonth
                \<and> r_accountId r = r_accountId r')
          \<and> \<not> (\<exists>x\<in>set (records st). r_accountId x = r_accountId r' \<and> r_year x = year
                    \<and> r_month x = month))
     \<and> (\<forall>r\<in>set (records st). r_year r = lastYear \<and> r_month r = lastMonth
          \<longrightarrow> (\<exists>r'. find (\<lambda>x. r_accountId x = r_accountId r \<and> r_year x = year
                                \<and> r_month x = month) (records after) = Some r'))
     \<and> (distinct (map r_accountId
           (filter (\<lambda>r. r_year r = lastYear \<and> r_month r = lastMonth) (records st)))
        \<longrightarrow> (\<forall>r\<in>set (records st). r_year r = lastYear \<and> r_month r = lastMonth
              \<longrightarrow> (\<exists>r'. find (\<lambda>x. r_accountId x = r_accountId r \<and> r_year x = year
                                    \<and> r_month x = month) (records after) = Some r'
                         \<and> r_balance r' = r_balance r)))"
proof -
  let ?todo = "filter (\<lambda>r. r_year r = lastYear \<and> r_month r = lastMonth) (records st)"
  have lym: "lastYearMonth year month = (lastYear, lastMonth)"
    by (simp add: lastYearMonth_def lastYear_def lastMonth_def)
  have recs: "records after = copyLoop (generateId e) 0 year month (records st) ?todo"
    unfolding after_def copyLastMonthBalances_records lym by simp
  have todo: "a \<in> r_accountId ` set ?todo
      \<longleftrightarrow> (\<exists>r\<in>set (records st). r_year r = lastYear \<and> r_month r = lastMonth
            \<and> r_accountId r = a)" for a
    by auto
  have keyin: "(a, year, month) \<in> recKey ` set xs
      \<longleftrightarrow> (\<exists>x\<in>set xs. r_accountId x = a \<and> r_year x = year \<and> r_month x = month)" for a xs
    by (auto simp add: recKey_def)
  have frame: "accounts after = accounts st \<and> logs after = logs st
      \<and> settings after = settings st"
    by (simp add: after_def copyLastMonthBalances_def saveData_calc_def split_beta)
  note shape = copyLoop_shape [of "records st" "generateId e" 0 year month ?todo,
      folded recs, unfolded todo keyin]
  have found: "\<exists>r'. find (\<lambda>x. r_accountId x = r_accountId r \<and> r_year x = year
                              \<and> r_month x = month) (records after) = Some r'"
    if "r \<in> set (records st)" and "r_year r = lastYear \<and> r_month r = lastMonth" for r
  proof -
    from that have "r \<in> set ?todo" by simp
    from copyLoop_exists [OF this, of year month "generateId e" 0 "records st"]
    have "(r_accountId r, year, month) \<in> recKey ` set (records after)"
      unfolding recs by simp
    then show ?thesis unfolding keyin find_exists .
  qed
  have copied: "\<exists>r'. find (\<lambda>x. r_accountId x = r_accountId r \<and> r_year x = year
                               \<and> r_month x = month) (records after) = Some r'
                     \<and> r_balance r' = r_balance r"
    if "distinct (map r_accountId ?todo)" and "r \<in> set (records st)"
      and "r_year r = lastYear \<and> r_month r = lastMonth" for r
  proof -
    from that(2,3) have "r \<in> set ?todo" by simp
    from copyLoop_hit [OF that(1) this, of year month "generateId e" 0 "records st"]
    show ?thesis unfolding recs .
  qed
  from frame shape found copied show ?thesis by blast
qed

text \<open>
  Copying December 2023 into January 2024 on \<open>docTwo\<close> updates the January record in
  place; copying January into February appends a record.
\<close>

theorem copyLastMonthBalances_silent_witness:
  "records (copyLastMonthBalances env0 2024 1 docTwo)
     = [\<lparr>r_id = ''rec-1'', r_accountId = ''acc-cash'', r_year = 2023, r_month = 12,
          r_balance = 900\<rparr>,
        \<lparr>r_id = ''rec-2'', r_accountId = ''acc-cash'', r_year = 2024, r_month = 1,
          r_balance = 900\<rparr>]
   \<and> records (copyLastMonthBalances env0 2024 2 docTwo)
     = records docTwo @ [\<lparr>r_id = ''g'', r_accountId = ''acc-cash'', r_year = 2024,
                           r_month = 2, r_balance = 950\<rparr>]
   \<and> logs (copyLastMonthBalances env0 2024 1 docTwo) = []
   \<and> accounts (copyLastMonthBalances env0 2024 2 docTwo) = [cashAcc]
   \<and> (\<exists>r'. find (\<lambda>x. r_accountId x = ''acc-cash'' \<and> r_year x = 2024 \<and> r_month x = 1)
               (records (copyLastMonthBalances env0 2024 1 docTwo)) = Some r'
            \<and> r_balance r' = 900)
   \<and> (\<exists>r'. find (\<lambda>x. r_accountId x = ''acc-cash'' \<and> r_year x = 2024 \<and> r_month x = 2)
               (records (copyLastMonthBalances env0 2024 2 docTwo)) = Some r'
            \<and> r_balance r' = 950)"
proof -
  have jan: "records (copyLastMonthBalances env0 2024 1 docTwo)
     = [\<lparr>r_id = ''rec-1'', r_accountId = ''acc-cash'', r_year = 2023, r_month = 12,
          r_balance = 900\<rparr>,
        \<lparr>r_id = ''rec-2'', r_accountId = ''acc-cash'', r_year = 2024, r_month = 1,
          r_balance = 900\<rparr>]"
    by (simp add: copyLastMonthBalances_records lastYearMonth_def docTwo_def defaultState_def)
  have feb: "records (copyLastMonthBalances env0 2024 2 docTwo)
     = records docTwo @ [\<lparr>r_id = ''g'', r_accountId = ''acc-cash'', r_year = 2024,
                           r_month = 2, r_balance = 950\<rparr>]"
    by (simp add: copyLastMonthBalances_records lastYearMonth_def docTwo_def defaultState_def
        env0_def)
  have dist: "distinct (map r_accountId
      (filter (\<lambda>r. r_year r = 2023 \<and> r_month r = 12) (records docTwo)))"
    "distinct (map r_accountId
      (filter (\<lambda>r. r_year r = 2024 \<and> r_month r = 1) (records docTwo)))"
    by (simp_all add: docTwo_def defaultState_def)
  have dec: "\<lparr>r_id = ''rec-1'', r_accountId = ''acc-cash'', r_year = 2023, r_month = 12,
               r_balance = 900\<rparr> \<in> set (records docTwo)"
    and january: "\<lparr>r_id = ''rec-2'', r_accountId = ''acc-cash'', r_year = 2024, r_month = 1,
               r_balance = 950\<rparr> \<in> set (records docTwo)"
    by (simp_all add: docTwo_def defaultState_def)
  have 1: "logs (copyLastMonthBalances env0 2024 1 docTwo) = logs docTwo
      \<and> (\<exists>r'. find (\<lambda>x. r_accountId x = ''acc-cash'' \<and> r_year x = 2024 \<and> r_month x = 1)
               (records (copyLastMonthBalances env0 2024 1 docTwo)) = Some r'
            \<and> r_balance r' = 900)"
    using copyLastMonthBalances_silent [where e = env0 and year = 2024 and month = 1
        and st = docTwo] dist(1) dec
    by (simp del: find.simps) fastforce
  have 2: "accounts (copyLastMonthBalances env0 2024 2 docTwo) = accounts docTwo
      \<and> (\<exists>r'. find (\<lambda>x. r_accountId x = ''acc-cash'' \<and> r_year x = 2024 \<and> r_month x = 2)
               (records (copyLastMonthBalances env0 2024 2 docTwo)) = Some r'
            \<and> r_balance r' = 950)"
    using copyLastMonthBalances_silent [where e = env0 and year = 2024 and month = 2
        and st = docTwo] dist(2) january
    by (simp del: find.simps) fastforce
  from 1 2 jan feb show ?thesis by (simp add: docTwo_def defaultState_def)
qed

text \<open>
  C9 as stated fails on a document whose preceding month holds two records of one account
  with balances 900 and 700: both are upserted in turn, the only record of the account at
  the target month ends with balance 700, and none has balance 900.
\<close>

theorem copyLastMonthBalances_duplicate_counterexample:
  "lastYearMonth 2024 1 = (2023, 12)
   \<and> \<lparr>r_id = ''rec-1'', r_accountId = ''acc-cash'', r_year = 2023, r_month = 12,
       r_balance = 900\<rparr> \<in> set (records docDupPrev)
   \<and> records (copyLastMonthBalances env0 2024 1 docDupPrev)
       = records docDupPrev @
           [\<lparr>r_id = ''g'', r_accountId = ''acc-cash'', r_year = 2024, r_month = 1,
             r_balance = 700\<rparr>]
   \<and> \<not> (\<exists>r'\<in>set (records (copyLastMonthBalances env0 2024 1 docDupPrev)).
          r_accountId r' = ''acc-cash'' \<and> r_year r' = 2024 \<and> r_month r' = 1
          \<and> r_balance r' = 900)"
proof -
  have lym: "lastYearMonth 2024 1 = (2023, 12)" by (simp add: lastYearMonth_def)
  have recs: "records (copyLastMonthBalances env0 2024 1 docDupPrev)
       = records docDupPrev @
           [\<lparr>r_id = ''g'', r_accountId = ''acc-cash'', r_year = 2024, r_month = 1,
             r_balance = 700\<rparr>]"
    by (simp add: copyLastMonthBalances_records lym docDupPrev_def defaultState_def env0_def)
  show ?thesis
    unfolding recs by (simp add: lym docDupPrev_def defaultState_def)
qed

end
